theory Spec2Isabelle
  imports Main
begin

section \<open>Data model\<close>

text \<open>
  The persistent collections (users, subscriptions, plans, usage records, voice files) are
  Mongoose models. Documents are records, collections keyed by id are maps, and the voice-file
  collection is a list, since it is counted and searched by field values. Identifiers of
  users, subscriptions and plans are the string form of their ObjectId; dates are
  milliseconds since the epoch. JavaScript strings are lists of code units, so
  \<open>text.length\<close> is \<open>length text\<close>.

  Reads and writes of users, subscriptions and voice files (\<open>findById\<close>, \<open>save\<close>,
  \<open>countDocuments\<close>) are total operations on the store: a request is modelled from the
  moment the store answers. The external services (Polly, S3, the rate limiter) may fail,
  and so may the usage commit \<open>usage.addUsage\<close>, which the controller awaits inside its
  inner \<open>try\<close>; each of these failures is a branch of the model.
\<close>

type_synonym object_id = string
type_synonym date = nat
type_synonym period = "nat \<times> nat"

datatype sub_status = pending | active | expired | cancelled

record plan_features =
  charactersPerMonth :: nat
  maxConcurrentRequests :: "nat option"

record plan =
  plan_name :: string
  features :: plan_features

record subscription =
  status :: sub_status
  endDate :: "date option"
  plan_ref :: "object_id option"

record user =
  subscription_ref :: "object_id option"

datatype vf_status = processing | completed | failed

record voice_info =
  voice_id :: string
  voice_name :: string
  voice_language :: string
  voice_gender :: string
  supportedEngines :: "string list"

text \<open>What a voice file keeps of the voice it was made with.\<close>

record file_voice =
  fv_id :: string
  fv_name :: string
  fv_language :: string
  fv_gender :: string

record voice_file =
  vf_id :: nat
  vf_user :: object_id
  filename :: string
  originalText :: string
  textLength :: nat
  voice :: file_voice
  audioFormat :: string
  vf_status :: vf_status
  audioUrl :: string
  s3Key :: string
  duration :: nat
  fileSize :: nat
  errorMessage :: "string option"
  downloadCount :: nat
  lastDownloadedAt :: "date option"
  createdAt :: date

record usage =
  charactersUsed :: nat
  requestsCount :: nat
  audioFilesGenerated :: nat
  totalAudioDuration :: nat
  lastUsedAt :: "date option"

text \<open>
  The usage document as the controller holds it: the stored counters, the key of the record
  and the limit it reports as \<open>usage.charactersLimit\<close>.
\<close>

record usage_doc =
  usage_user :: object_id
  usage_period :: period
  counters :: usage
  charactersLimit :: nat

record polly_params =
  Text :: string
  VoiceId :: string
  OutputFormat :: string
  Engine :: string

record polly_response =
  AudioStream :: "nat list"
  ContentType :: string
  RequestCharacters :: nat

record world =
  users :: "object_id \<rightharpoonup> user"
  subscriptions :: "object_id \<rightharpoonup> subscription"
  plans :: "object_id \<rightharpoonup> plan"
  usages :: "(object_id \<times> period) \<rightharpoonup> usage"
  voiceFiles :: "voice_file list"
  voiceFileWrites :: "voice_file list"
  pollyRequests :: "polly_params list"

text \<open>
  \<open>voiceFileWrites\<close> is the log of every document version written to the voice-file
  collection, oldest first, and \<open>pollyRequests\<close> the log of every SynthesizeSpeech command
  sent to the provider. Neither is read by the program; they record what it did.
\<close>

subsection \<open>Responses\<close>

datatype err_code =
  NO_SUBSCRIPTION | INACTIVE_SUBSCRIPTION | EXPIRED_SUBSCRIPTION
  | QUOTA_EXCEEDED | CONCURRENT_LIMIT_EXCEEDED

datatype payload =
  NoData
  | SubscriptionData sub_status object_id
  | ExpiredData date object_id
  | QuotaData nat nat nat nat
  | ConcurrencyData nat nat
  | ConvertData voice_file string nat nat nat
  | DownloadData string string nat

text \<open>
  \<open>Json st ok msg code data\<close> is \<open>res.status(st).json({success: ok, error or message: msg,
  code, data})\<close>; \<open>SendAudio\<close> is the preview's \<open>res.send(audioBuffer)\<close> with its content
  type. \<open>QuotaData\<close> carries charactersUsed, charactersLimit, textLength and remaining;
  \<open>ConvertData\<close> the voice file, the download URL, charactersUsed, charactersLimit and
  remaining. The \<open>usagePercentage\<close> fields are floating-point telemetry and are left out.
\<close>

datatype reply =
  Json nat bool string "err_code option" payload
  | SendAudio string "nat list"

fun reply_code :: "reply \<Rightarrow> err_code option" where
  "reply_code (Json st ok msg c d) = c"
| "reply_code (SendAudio ct b) = None"

fun reply_status :: "reply \<Rightarrow> nat" where
  "reply_status (Json st ok msg c d) = st"
| "reply_status (SendAudio ct b) = 200"

text \<open>A middleware either sends a response or calls \<open>next()\<close>, handing on what it attached
  to the request.\<close>

datatype 'a outcome = Respond reply | Next 'a

subsection \<open>The environment of one request\<close>

record env =
  now :: date
  currentPeriod :: period
  describeVoices :: "string + voice_info list"
  synthesizeSpeech :: "polly_params \<Rightarrow> string + polly_response"
  putObject :: "string \<Rightarrow> bool"
  getSignedUrl :: "string \<Rightarrow> string \<Rightarrow> string option"
  uuid_filename :: string
  uuid_key :: string
  ttsLimiter :: "string option"
  estimateAudioDuration :: "string \<Rightarrow> nat"
  usageCommitError :: "(char \<times> string) option"

text \<open>
  \<open>describeVoices\<close> and \<open>synthesizeSpeech\<close> are the provider's answers (\<open>Inl\<close> the error
  message), \<open>putObject\<close> whether the upload of a key succeeds, \<open>getSignedUrl\<close> the signed
  URL of a key and file name (\<open>None\<close> when signing fails), the two uuids the values
  \<open>uuidv4()\<close> returns in the controller and in the storage service. \<open>ttsLimiter\<close> is the
  rate limiter of \<open>middleware/limiter\<close>: the message of the status-429 response it
  sends, or \<open>None\<close> when it calls \<open>next()\<close>. \<open>estimateAudioDuration\<close> is the words-per-minute heuristic of the service,
  computed there in floating point. \<open>usageCommitError\<close> is the error with which the store
  rejects the usage commit of this request, \<open>None\<close> when the commit goes through; the
  message of an error of the store is never empty, so it is given as its first character and
  the rest.
\<close>

section \<open>Entitlement: checkSubscription\<close>

definition populate_subscription :: "world \<Rightarrow> user \<Rightarrow> (object_id \<times> subscription) option" where
  "populate_subscription w u =
     (case subscription_ref u of
        None \<Rightarrow> None
      | Some sid \<Rightarrow> (case subscriptions w sid of None \<Rightarrow> None | Some s \<Rightarrow> Some (sid, s)))"

definition populate_plan :: "world \<Rightarrow> subscription \<Rightarrow> plan option" where
  "populate_plan w s = (case plan_ref s of None \<Rightarrow> None | Some pid \<Rightarrow> plans w pid)"

definition save_subscription :: "object_id \<Rightarrow> subscription \<Rightarrow> world \<Rightarrow> world" where
  "save_subscription sid s w = w\<lparr>subscriptions := (subscriptions w)(sid \<mapsto> s)\<rparr>"

definition checkSubscription ::
  "env \<Rightarrow> object_id \<Rightarrow> world \<Rightarrow> (object_id \<times> subscription \<times> plan option) outcome \<times> world" where
  "checkSubscription e uid w =
     (case users w uid of
        None \<Rightarrow> (Respond (Json 404 False ''User not found'' None NoData), w)
      | Some u \<Rightarrow>
          (case populate_subscription w u of
             None \<Rightarrow>
               (Respond (Json 403 False
                  ''No subscription found. Please subscribe to a plan to use this feature.''
                  (Some NO_SUBSCRIPTION) NoData), w)
           | Some (sid, s) \<Rightarrow>
               if status s \<noteq> active then
                 (Respond (Json 403 False
                    ''Your subscription is not active. Please ensure your payment is processed.''
                    (Some INACTIVE_SUBSCRIPTION) (SubscriptionData (status s) sid)), w)
               else
                 (case endDate s of
                    Some d \<Rightarrow>
                      if d < now e then
                        (Respond (Json 403 False
                           ''Your subscription has expired. Please renew to continue using this feature.''
                           (Some EXPIRED_SUBSCRIPTION) (ExpiredData d sid)),
                         save_subscription sid (s\<lparr>status := expired\<rparr>) w)
                      else (Next (sid, s, populate_plan w s), w)
                  | None \<Rightarrow> (Next (sid, s, populate_plan w s), w))))"

section \<open>Quota ledger: the Usage model\<close>

text \<open>
  Modelled from the spec: \<open>models/Usage.js\<close> is not among the sources, so the methods the
  controller and the middleware call on it follow the specification of the quota ledger.
  \<open>getOrCreateCurrentUsage\<close> looks up the record of the user for the current period and
  creates it with zero counters when there is none; the limit the document reports is the
  \<open>charactersPerMonth\<close> of the subscription's plan (0 when the plan cannot be resolved, as
  the usage statistics of the user controller report it).
\<close>

definition zero_usage :: usage where
  "zero_usage = \<lparr>charactersUsed = 0, requestsCount = 0, audioFilesGenerated = 0,
                 totalAudioDuration = 0, lastUsedAt = None\<rparr>"

definition plan_limit :: "world \<Rightarrow> object_id \<Rightarrow> nat" where
  "plan_limit w sid =
     (case subscriptions w sid of
        None \<Rightarrow> 0
      | Some s \<Rightarrow> (case populate_plan w s of None \<Rightarrow> 0 | Some p \<Rightarrow> charactersPerMonth (features p)))"

definition getOrCreateCurrentUsage ::
  "env \<Rightarrow> object_id \<Rightarrow> object_id \<Rightarrow> world \<Rightarrow> usage_doc \<times> world" where
  "getOrCreateCurrentUsage e uid sid w =
     (case usages w (uid, currentPeriod e) of
        Some u \<Rightarrow>
          (\<lparr>usage_user = uid, usage_period = currentPeriod e, counters = u,
            charactersLimit = plan_limit w sid\<rparr>, w)
      | None \<Rightarrow>
          (\<lparr>usage_user = uid, usage_period = currentPeriod e, counters = zero_usage,
            charactersLimit = plan_limit w sid\<rparr>,
           w\<lparr>usages := (usages w)((uid, currentPeriod e) \<mapsto> zero_usage)\<rparr>))"

text \<open>
  Modelled from the spec: \<open>hasQuota\<close> of the missing Usage model; the specification allows a
  request iff \<open>charactersUsed + requestedChars <= charactersPerMonth\<close>.
\<close>

definition hasQuota :: "usage_doc \<Rightarrow> nat \<Rightarrow> bool" where
  "hasQuota d n \<longleftrightarrow> charactersUsed (counters d) + n \<le> charactersLimit d"

text \<open>
  Modelled from the spec: \<open>getRemainingCharacters\<close> of the missing Usage model, the
  characters left under the limit and never negative.
\<close>

definition getRemainingCharacters :: "usage_doc \<Rightarrow> nat" where
  "getRemainingCharacters d = charactersLimit d - charactersUsed (counters d)"

text \<open>
  Modelled from the spec: \<open>addUsage\<close> of the missing Usage model is the ledger's commit. It
  adds the given characters and duration, counts one request and one audio file, stamps
  \<open>lastUsedAt\<close>, and is applied to the stored record as one increment. The commit is a
  write to the store that the caller awaits: when the store rejects it, the promise rejects
  with the store's error (\<open>Inl\<close> its message) and, the increment being atomic, the record
  is as it was.
\<close>

definition addUsage ::
  "env \<Rightarrow> usage_doc \<Rightarrow> nat \<Rightarrow> nat \<Rightarrow> world \<Rightarrow> (string + usage_doc) \<times> world" where
  "addUsage e d chars dur w =
     (case usageCommitError e of
        Some (c, cs) \<Rightarrow> (Inl (c # cs), w)
      | None \<Rightarrow>
          (let k = (usage_user d, usage_period d);
               u = (case usages w k of None \<Rightarrow> zero_usage | Some u \<Rightarrow> u);
               u' = u\<lparr>charactersUsed := charactersUsed u + chars,
                      requestsCount := requestsCount u + 1,
                      audioFilesGenerated := audioFilesGenerated u + 1,
                      totalAudioDuration := totalAudioDuration u + dur,
                      lastUsedAt := Some (now e)\<rparr>
           in (Inr (d\<lparr>counters := u'\<rparr>), w\<lparr>usages := (usages w)(k \<mapsto> u')\<rparr>)))"

text \<open>The counter a user has consumed in a period; a record not yet created counts as 0.\<close>

definition charactersUsedOf :: "world \<Rightarrow> object_id \<Rightarrow> period \<Rightarrow> nat" where
  "charactersUsedOf w uid p = (case usages w (uid, p) of None \<Rightarrow> 0 | Some u \<Rightarrow> charactersUsed u)"

section \<open>Requests\<close>

text \<open>
  The body of a conversion request; \<open>None\<close> is a field the client did not send. The
  authenticated user id is what the \<open>protect\<close> middleware stores in \<open>req.user.id\<close>.
\<close>

record convert_body =
  body_text :: "string option"
  body_voiceId :: "string option"
  body_outputFormat :: "string option"
  body_engine :: "string option"

record request =
  user_id :: object_id
  body :: convert_body

record preview_body =
  preview_voiceId :: "string option"
  preview_sampleText :: "string option"

text \<open>JavaScript's \<open>!s\<close> on a string that may be undefined.\<close>

fun falsy :: "string option \<Rightarrow> bool" where
  "falsy None = True"
| "falsy (Some s) = (s = [])"

text \<open>\<open>!text || !voiceId\<close> fails: both strings are present and not empty.\<close>

fun non_empty :: "string option \<Rightarrow> string option \<Rightarrow> (string \<times> string) option" where
  "non_empty (Some t) (Some v) = (if t = [] \<or> v = [] then None else Some (t, v))"
| "non_empty a b = None"

section \<open>Quota and concurrency middleware\<close>

definition checkCharacterLimit ::
  "env \<Rightarrow> request \<Rightarrow> object_id \<Rightarrow> world \<Rightarrow> (usage_doc \<times> nat) outcome \<times> world" where
  "checkCharacterLimit e req sid w =
     (case body_text (body req) of
        None \<Rightarrow> (Respond (Json 400 False ''Text is required'' None NoData), w)
      | Some t \<Rightarrow>
          if t = [] then (Respond (Json 400 False ''Text is required'' None NoData), w)
          else
            (case getOrCreateCurrentUsage e (user_id req) sid w of
               (d, w') \<Rightarrow>
                 if \<not> hasQuota d (length t) then
                   (Respond (Json 403 False ''Character limit exceeded for this month''
                      (Some QUOTA_EXCEEDED)
                      (QuotaData (charactersUsed (counters d)) (charactersLimit d) (length t)
                         (getRemainingCharacters d))), w')
                 else (Next (d, length t), w')))"

definition processingFiles :: "world \<Rightarrow> object_id \<Rightarrow> nat" where
  "processingFiles w uid =
     length (filter (\<lambda>f. vf_user f = uid \<and> vf_status f = processing) (voiceFiles w))"

text \<open>\<open>req.plan.features.maxConcurrentRequests || 5\<close>: an unset limit and the limit 0 are
  both falsy.\<close>

definition maxConcurrent :: "plan \<Rightarrow> nat" where
  "maxConcurrent p =
     (case maxConcurrentRequests (features p) of
        None \<Rightarrow> 5
      | Some n \<Rightarrow> if n = 0 then 5 else n)"

definition checkConcurrentRequests :: "request \<Rightarrow> plan option \<Rightarrow> world \<Rightarrow> unit outcome" where
  "checkConcurrentRequests req p w =
     (case p of
        None \<Rightarrow> Respond (Json 500 False ''Failed to check concurrent request limit'' None NoData)
      | Some pl \<Rightarrow>
          if processingFiles w (user_id req) \<ge> maxConcurrent pl then
            Respond (Json 429 False
              ''Maximum concurrent requests reached. Please wait for current requests to complete.''
              (Some CONCURRENT_LIMIT_EXCEEDED)
              (ConcurrencyData (processingFiles w (user_id req)) (maxConcurrent pl)))
          else Next ())"

section \<open>Request validation of the routes\<close>

definition supportedFormats :: "string list" where
  "supportedFormats = [''mp3'', ''wav'', ''ogg'']"

definition supportedEngines :: "string list" where
  "supportedEngines = [''standard'', ''neural'']"

definition ttsValidation :: "convert_body \<Rightarrow> bool" where
  "ttsValidation b \<longleftrightarrow>
     (case body_text b of None \<Rightarrow> False | Some t \<Rightarrow> 1 \<le> length t \<and> length t \<le> 300000)
     \<and> \<not> falsy (body_voiceId b)
     \<and> (case body_outputFormat b of None \<Rightarrow> True | Some f \<Rightarrow> f \<in> set [''mp3'', ''wav'', ''ogg''])
     \<and> (case body_engine b of None \<Rightarrow> True | Some g \<Rightarrow> g \<in> set [''standard'', ''neural''])"

definition previewValidation :: "preview_body \<Rightarrow> bool" where
  "previewValidation b \<longleftrightarrow>
     \<not> falsy (preview_voiceId b)
     \<and> (case preview_sampleText b of None \<Rightarrow> True | Some t \<Rightarrow> length t \<le> 100)"

definition validation_failed :: reply where
  "validation_failed = Json 400 False ''Validation failed'' None NoData"

section \<open>The synthesis and storage services\<close>

record synthesis_result =
  audioBuffer :: "nat list"
  contentType :: string
  requestCharacters :: nat

definition getAvailableVoices :: "env \<Rightarrow> string + voice_info list" where
  "getAvailableVoices e =
     (case describeVoices e of
        Inl m \<Rightarrow> Inl ''Failed to fetch available voices''
      | Inr vs \<Rightarrow> Inr vs)"

definition getVoiceById :: "env \<Rightarrow> string \<Rightarrow> string + voice_info option" where
  "getVoiceById e vid =
     (case getAvailableVoices e of
        Inl m \<Rightarrow> Inl ''Failed to validate voice ID''
      | Inr vs \<Rightarrow> Inr (find (\<lambda>v. voice_id v = vid) vs))"

text \<open>Every error inside \<open>synthesizeText\<close>, its own validation included, is caught and thrown
  again with the prefix of the service.\<close>

definition synthesis_failed :: "string \<Rightarrow> string" where
  "synthesis_failed m = ''Speech synthesis failed: '' @ m"

definition synthesizeText ::
  "env \<Rightarrow> string \<Rightarrow> string \<Rightarrow> string \<Rightarrow> string \<Rightarrow> world \<Rightarrow> (string + synthesis_result) \<times> world" where
  "synthesizeText e t vid fmt eng w =
     (if t = [] \<or> vid = [] then (Inl (synthesis_failed ''Text and voice ID are required''), w)
      else if fmt \<notin> set supportedFormats then
        (Inl (synthesis_failed (''Unsupported output format: '' @ fmt)), w)
      else if eng \<notin> set supportedEngines then
        (Inl (synthesis_failed (''Unsupported engine: '' @ eng)), w)
      else
        (let params = \<lparr>Text = t, VoiceId = vid, OutputFormat = fmt, Engine = eng\<rparr>;
             w' = w\<lparr>pollyRequests := pollyRequests w @ [params]\<rparr>
         in case synthesizeSpeech e params of
              Inl m \<Rightarrow> (Inl (synthesis_failed m), w')
            | Inr r \<Rightarrow>
                (Inr \<lparr>audioBuffer = AudioStream r, contentType = ContentType r,
                      requestCharacters = RequestCharacters r\<rparr>, w')))"

definition uploadAudioFile :: "env \<Rightarrow> object_id \<Rightarrow> string \<Rightarrow> string + string" where
  "uploadAudioFile e uid fname =
     (let key = ''audio/'' @ uid @ ''/'' @ uuid_key e @ ''-'' @ fname
      in if putObject e key then Inr key else Inl ''Failed to upload audio file'')"

definition generatePresignedDownloadUrl :: "env \<Rightarrow> string \<Rightarrow> string \<Rightarrow> string + string" where
  "generatePresignedDownloadUrl e key fname =
     (case getSignedUrl e key fname of
        None \<Rightarrow> Inl ''Failed to generate download URL''
      | Some u \<Rightarrow> Inr u)"

section \<open>The voice-file collection\<close>

text \<open>
  \<open>new VoiceFile(...)\<close> draws an ObjectId no document has had before; the model takes the
  successor of the largest id stored or ever written. \<open>save\<close> inserts a document whose id
  is not stored yet and replaces the stored version otherwise.
\<close>

definition new_vf_id :: "world \<Rightarrow> nat" where
  "new_vf_id w = Suc (fold max (map vf_id (voiceFiles w @ voiceFileWrites w)) 0)"

definition save_voiceFile :: "voice_file \<Rightarrow> world \<Rightarrow> world" where
  "save_voiceFile vf w =
     w\<lparr>voiceFiles :=
         (if vf_id vf \<in> set (map vf_id (voiceFiles w))
          then map (\<lambda>f. if vf_id f = vf_id vf then vf else f) (voiceFiles w)
          else voiceFiles w @ [vf]),
       voiceFileWrites := voiceFileWrites w @ [vf]\<rparr>"

section \<open>The controller: convertTextToSpeech\<close>

text \<open>
  The body of the inner \<open>try\<close> up to the signed URL (steps 7 to 10): synthesis, duration
  estimate, upload, signing. \<open>Inl\<close> is the message of the error thrown.
\<close>

definition synthesize_and_store ::
  "env \<Rightarrow> object_id \<Rightarrow> string \<Rightarrow> string \<Rightarrow> string \<Rightarrow> string \<Rightarrow> string \<Rightarrow> world
   \<Rightarrow> (string + synthesis_result \<times> nat \<times> string \<times> string) \<times> world" where
  "synthesize_and_store e uid t vid fmt eng fname w =
     (case synthesizeText e t vid fmt eng w of
        (Inl m, w1) \<Rightarrow> (Inl m, w1)
      | (Inr r, w1) \<Rightarrow>
          (let est = estimateAudioDuration e t
           in case uploadAudioFile e uid fname of
                Inl m \<Rightarrow> (Inl m, w1)
              | Inr key \<Rightarrow>
                  (case generatePresignedDownloadUrl e key fname of
                     Inl m \<Rightarrow> (Inl m, w1)
                   | Inr url \<Rightarrow> (Inr (r, est, key, url), w1))))"

text \<open>The file name of the job: \<open>tts_${uuidv4()}.${outputFormat}\<close>, with the default format.\<close>

definition job_filename :: "env \<Rightarrow> request \<Rightarrow> string" where
  "job_filename e req =
     ''tts_'' @ uuid_filename e @ ''.'' @
       (case body_outputFormat (body req) of None \<Rightarrow> ''mp3'' | Some f \<Rightarrow> f)"

definition conversion_failed :: reply where
  "conversion_failed = Json 500 False ''Failed to convert text to speech'' None NoData"

text \<open>
  The inner \<open>try\<close>/\<open>catch\<close> (steps 7 to 13) on the voice file just saved as processing. The
  \<open>catch\<close> marks the document failed, saves it and throws again, which the outer \<open>catch\<close>
  answers with status 500. The usage commit of step 12 is inside the \<open>try\<close>: when it
  throws, the \<open>catch\<close> runs on the document that step 11 has just saved as completed.
\<close>

definition run_conversion ::
  "env \<Rightarrow> object_id \<Rightarrow> string \<Rightarrow> string \<Rightarrow> string \<Rightarrow> string \<Rightarrow> usage_doc \<Rightarrow> voice_file \<Rightarrow> world
   \<Rightarrow> reply \<times> world" where
  "run_conversion e uid t vid fmt eng d vf w =
     (case synthesize_and_store e uid t vid fmt eng (filename vf) w of
        (Inl m, w1) \<Rightarrow>
          (conversion_failed,
           save_voiceFile (vf\<lparr>vf_status := failed, errorMessage := Some m\<rparr>) w1)
      | (Inr (r, est, key, url), w1) \<Rightarrow>
          (let vf' = vf\<lparr>s3Key := key, audioUrl := url, fileSize := length (audioBuffer r),
                        duration := est, vf_status := completed\<rparr>;
               w2 = save_voiceFile vf' w1
           in case addUsage e d (length t) est w2 of
                (Inl m, w3) \<Rightarrow>
                  (conversion_failed,
                   save_voiceFile (vf'\<lparr>vf_status := failed, errorMessage := Some m\<rparr>) w3)
              | (Inr d', w3) \<Rightarrow>
                  (Json 200 True ''Text converted to speech successfully'' None
                     (ConvertData vf' url (charactersUsed (counters d')) (charactersLimit d')
                        (getRemainingCharacters d')), w3)))"

definition convertTextToSpeech :: "env \<Rightarrow> request \<Rightarrow> world \<Rightarrow> reply \<times> world" where
  "convertTextToSpeech e req w =
     (let b = body req;
          uid = user_id req;
          fmt = (case body_outputFormat b of None \<Rightarrow> ''mp3'' | Some f \<Rightarrow> f);
          eng = (case body_engine b of None \<Rightarrow> ''standard'' | Some g \<Rightarrow> g)
      in case non_empty (body_text b) (body_voiceId b) of
           None \<Rightarrow> (Json 400 False ''Text and voice ID are required'' None NoData, w)
         | Some (t, vid) \<Rightarrow>
             if length t > 300000 then
               (Json 400 False ''Text cannot exceed 300000 characters'' None NoData, w)
             else
               (case users w uid of
                  None \<Rightarrow> (conversion_failed, w)
                | Some u \<Rightarrow>
                    (case populate_subscription w u of
                       None \<Rightarrow> (Json 403 False ''Active subscription required'' None NoData, w)
                     | Some (sid, s) \<Rightarrow>
                         if status s \<noteq> active then
                           (Json 403 False ''Active subscription required'' None NoData, w)
                         else
                           (case getOrCreateCurrentUsage e uid sid w of
                              (d, w1) \<Rightarrow>
                                if \<not> hasQuota d (length t) then
                                  (Json 403 False ''Character limit exceeded for this month'' None
                                     (QuotaData (charactersUsed (counters d)) (charactersLimit d)
                                        (length t) (getRemainingCharacters d)), w1)
                                else
                                  (case getVoiceById e vid of
                                     Inl m \<Rightarrow> (conversion_failed, w1)
                                   | Inr None \<Rightarrow>
                                       (Json 400 False ''Invalid voice ID'' None NoData, w1)
                                   | Inr (Some v) \<Rightarrow>
                                       (let vf = \<lparr>vf_id = new_vf_id w1, vf_user = uid,
                                                  filename = job_filename e req,
                                                  originalText = t, textLength = length t,
                                                  voice = \<lparr>fv_id = voice_id v, fv_name = voice_name v,
                                                    fv_language = voice_language v,
                                                    fv_gender = voice_gender v\<rparr>,
                                                  audioFormat = fmt,
                                                  vf_status = processing,
                                                  audioUrl = ''PENDING'', s3Key = ''PENDING'',
                                                  duration = 0, fileSize = 0,
                                                  errorMessage = None, downloadCount = 0,
                                                  lastDownloadedAt = None, createdAt = now e\<rparr>
                                        in run_conversion e uid t vid fmt eng d vf
                                             (save_voiceFile vf w1)))))))"

text \<open>
  The \<open>/convert\<close> route: the middleware in the order the router mounts it, then the
  controller. \<open>protect\<close> has already authenticated the user of the request.
\<close>

definition convert_route :: "env \<Rightarrow> request \<Rightarrow> world \<Rightarrow> reply \<times> world" where
  "convert_route e req w =
     (case checkSubscription e (user_id req) w of
        (Respond r, w1) \<Rightarrow> (r, w1)
      | (Next (sid, s, p), w1) \<Rightarrow>
          (case checkCharacterLimit e req sid w1 of
             (Respond r, w2) \<Rightarrow> (r, w2)
           | (Next x, w2) \<Rightarrow>
               (case checkConcurrentRequests req p w2 of
                  Respond r \<Rightarrow> (r, w2)
                | Next y \<Rightarrow>
                    (case ttsLimiter e of
                       Some m \<Rightarrow> (Json 429 False m None NoData, w2)
                     | None \<Rightarrow>
                         if \<not> ttsValidation (body req) then (validation_failed, w2)
                         else convertTextToSpeech e req w2))))"

section \<open>The controller: getDownloadUrl\<close>

definition getDownloadUrl :: "env \<Rightarrow> object_id \<Rightarrow> nat \<Rightarrow> world \<Rightarrow> reply \<times> world" where
  "getDownloadUrl e uid fileId w =
     (case find (\<lambda>f. vf_id f = fileId \<and> vf_user f = uid \<and> vf_status f = completed)
             (voiceFiles w) of
        None \<Rightarrow> (Json 404 False ''Voice file not found'' None NoData, w)
      | Some vf \<Rightarrow>
          (case generatePresignedDownloadUrl e (s3Key vf) (filename vf) of
             Inl m \<Rightarrow> (Json 500 False ''Failed to generate download URL'' None NoData, w)
           | Inr url \<Rightarrow>
               (Json 200 True [] None (DownloadData url (filename vf) 3600),
                save_voiceFile
                  (vf\<lparr>downloadCount := downloadCount vf + 1,
                      lastDownloadedAt := Some (now e)\<rparr>) w)))"

section \<open>The controller: previewVoice\<close>

definition default_sampleText :: string where
  "default_sampleText = ''Hello, this is a sample of my voice.''"

definition previewVoice :: "env \<Rightarrow> preview_body \<Rightarrow> world \<Rightarrow> reply \<times> world" where
  "previewVoice e b w =
     (case preview_voiceId b of
        None \<Rightarrow> (Json 400 False ''Voice ID is required'' None NoData, w)
      | Some vid \<Rightarrow>
          if vid = [] then (Json 400 False ''Voice ID is required'' None NoData, w)
          else
            (let sampleText = (case preview_sampleText b of None \<Rightarrow> default_sampleText | Some t \<Rightarrow> t);
                 limitedText = take 100 sampleText
             in case synthesizeText e limitedText vid ''mp3'' ''standard'' w of
                  (Inl m, w1) \<Rightarrow>
                    (Json 500 False ''Failed to generate voice preview'' None NoData, w1)
                | (Inr r, w1) \<Rightarrow> (SendAudio (contentType r) (audioBuffer r), w1)))"

text \<open>The \<open>/preview\<close> route is mounted before \<open>protect\<close>: its request carries no user.\<close>

definition preview_route :: "env \<Rightarrow> preview_body \<Rightarrow> world \<Rightarrow> reply \<times> world" where
  "preview_route e b w =
     (if \<not> previewValidation b then (validation_failed, w) else previewVoice e b w)"

section \<open>Concrete scenarios\<close>

text \<open>
  One user \<open>u1\<close> whose subscription \<open>s1\<close> is on plan \<open>p1\<close>, in November 2026. The
  parameters are the subscription's status and end date, the plan's monthly limit and
  concurrency limit, the characters already used this month, and the stored voice files.
\<close>

definition demo_voice :: voice_info where
  "demo_voice = \<lparr>voice_id = ''Joanna'', voice_name = ''Joanna'', voice_language = ''en-US'',
                  voice_gender = ''Female'', supportedEngines = [''neural'', ''standard'']\<rparr>"

definition demo_world ::
  "sub_status \<Rightarrow> date option \<Rightarrow> nat \<Rightarrow> nat option \<Rightarrow> nat \<Rightarrow> voice_file list \<Rightarrow> world" where
  "demo_world st ed lim conc used fs =
     \<lparr>users = [''u1'' \<mapsto> \<lparr>subscription_ref = Some ''s1''\<rparr>],
      subscriptions = [''s1'' \<mapsto> \<lparr>status = st, endDate = ed, plan_ref = Some ''p1''\<rparr>],
      plans = [''p1'' \<mapsto> \<lparr>plan_name = ''Basic'',
                 features = \<lparr>charactersPerMonth = lim, maxConcurrentRequests = conc\<rparr>\<rparr>],
      usages = [(''u1'', (2026, 11)) \<mapsto> zero_usage\<lparr>charactersUsed := used\<rparr>],
      voiceFiles = fs, voiceFileWrites = fs, pollyRequests = []\<rparr>"

text \<open>A world whose only user has no subscription.\<close>

definition unsubscribed_world :: world where
  "unsubscribed_world =
     \<lparr>users = [''u1'' \<mapsto> \<lparr>subscription_ref = None\<rparr>], subscriptions = Map.empty,
      plans = Map.empty, usages = Map.empty, voiceFiles = [], voiceFileWrites = [],
      pollyRequests = []\<rparr>"

text \<open>An environment at time 1000 whose provider gives the same answer to every synthesis
  request, and whose storage accepts or refuses every upload.\<close>

definition demo_env :: "string + polly_response \<Rightarrow> bool \<Rightarrow> env" where
  "demo_env synth put =
     \<lparr>now = 1000, currentPeriod = (2026, 11), describeVoices = Inr [demo_voice],
      synthesizeSpeech = (\<lambda>p. synth), putObject = (\<lambda>k. put),
      getSignedUrl = (\<lambda>k f. Some (''https://s3/'' @ k)),
      uuid_filename = ''a1'', uuid_key = ''b2'', ttsLimiter = None,
      estimateAudioDuration = (\<lambda>t. 1), usageCommitError = None\<rparr>"

text \<open>The same environment with a provider and a storage that work, and a store that
  rejects the usage commit.\<close>

definition demo_env_commit_down :: env where
  "demo_env_commit_down =
     \<lparr>now = 1000, currentPeriod = (2026, 11), describeVoices = Inr [demo_voice],
      synthesizeSpeech = (\<lambda>p. Inr \<lparr>AudioStream = [73, 68, 51], ContentType = ''audio/mpeg'',
                                    RequestCharacters = 11\<rparr>),
      putObject = (\<lambda>k. True),
      getSignedUrl = (\<lambda>k f. Some (''https://s3/'' @ k)),
      uuid_filename = ''a1'', uuid_key = ''b2'', ttsLimiter = None,
      estimateAudioDuration = (\<lambda>t. 1),
      usageCommitError = Some (CHR ''E'', ''CONNRESET'')\<rparr>"

definition demo_audio :: "nat \<Rightarrow> polly_response" where
  "demo_audio billed = \<lparr>AudioStream = [73, 68, 51], ContentType = ''audio/mpeg'',
                         RequestCharacters = billed\<rparr>"

definition demo_request :: "string \<Rightarrow> request" where
  "demo_request t =
     \<lparr>user_id = ''u1'',
      body = \<lparr>body_text = Some t, body_voiceId = Some ''Joanna'', body_outputFormat = None,
              body_engine = Some ''neural''\<rparr>\<rparr>"

definition demo_job :: "nat \<Rightarrow> vf_status \<Rightarrow> voice_file" where
  "demo_job i st =
     \<lparr>vf_id = i, vf_user = ''u1'', filename = ''tts_00.mp3'', originalText = ''Hi'',
      textLength = 2,
      voice = \<lparr>fv_id = ''Joanna'', fv_name = ''Joanna'', fv_language = ''en-US'',
               fv_gender = ''Female''\<rparr>,
      audioFormat = ''mp3'', vf_status = st,
      audioUrl = ''PENDING'', s3Key = ''PENDING'', duration = 0, fileSize = 0,
      errorMessage = None, downloadCount = 0, lastDownloadedAt = None, createdAt = 900\<rparr>"

section \<open>Outcomes of a conversion request\<close>

text \<open>
  The shapes a run of the conversion can leave behind, as relations between the store before
  and after. \<open>no_job\<close>: no voice file was written, the provider was not called, no counter
  moved. \<open>job_failed\<close>: the new voice file was written twice, as processing and then as
  failed with a non-empty error message, and no counter moved. \<open>job_commit_failed\<close>: the
  new voice file was written three times, as processing, as completed and then as failed
  with a non-empty error message, and no counter moved. \<open>job_completed\<close>: the new
  voice file was written as processing and then as completed, the provider answered the one
  synthesis request and the upload succeeded, and the user's counter of the current period
  grew by the length of the submitted text. \<open>rejected\<close> is \<open>no_job\<close> for a
  response that is not the success, with users and plans untouched; \<open>admitted\<close> says that
  the entitlement check passed with a plan and the concurrency check let the request through.
\<close>

definition no_job :: "world \<Rightarrow> world \<Rightarrow> bool" where
  "no_job w w' \<longleftrightarrow>
     voiceFiles w' = voiceFiles w \<and> voiceFileWrites w' = voiceFileWrites w \<and>
     pollyRequests w' = pollyRequests w \<and> (\<forall>u p. charactersUsedOf w' u p = charactersUsedOf w u p)"

definition job_failed :: "world \<Rightarrow> world \<Rightarrow> bool" where
  "job_failed w w' \<longleftrightarrow>
     (\<exists>vf m. m \<noteq> [] \<and> vf_id vf = new_vf_id w \<and> vf_status vf = processing \<and>
        voiceFiles w' = voiceFiles w @ [vf\<lparr>vf_status := failed, errorMessage := Some m\<rparr>] \<and>
        voiceFileWrites w' = voiceFileWrites w @ [vf, vf\<lparr>vf_status := failed, errorMessage := Some m\<rparr>] \<and>
        (\<forall>u p. charactersUsedOf w' u p = charactersUsedOf w u p))"

definition job_commit_failed :: "world \<Rightarrow> world \<Rightarrow> bool" where
  "job_commit_failed w w' \<longleftrightarrow>
     (\<exists>vf vf' m. m \<noteq> [] \<and> vf_id vf = new_vf_id w \<and> vf_status vf = processing \<and>
        vf_id vf' = new_vf_id w \<and> vf_status vf' = completed \<and>
        voiceFiles w' = voiceFiles w @ [vf'\<lparr>vf_status := failed, errorMessage := Some m\<rparr>] \<and>
        voiceFileWrites w' =
          voiceFileWrites w @ [vf, vf', vf'\<lparr>vf_status := failed, errorMessage := Some m\<rparr>] \<and>
        (\<forall>u p. charactersUsedOf w' u p = charactersUsedOf w u p))"

definition job_completed :: "env \<Rightarrow> request \<Rightarrow> world \<Rightarrow> world \<Rightarrow> bool" where
  "job_completed e req w w' \<longleftrightarrow>
     (\<exists>vf vf' t. body_text (body req) = Some t \<and>
        vf_id vf = new_vf_id w \<and> vf_status vf = processing \<and>
        vf_id vf' = new_vf_id w \<and> vf_status vf' = completed \<and>
        voiceFiles w' = voiceFiles w @ [vf'] \<and> voiceFileWrites w' = voiceFileWrites w @ [vf, vf'] \<and>
        (\<exists>p resp key. pollyRequests w' = pollyRequests w @ [p] \<and>
           synthesizeSpeech e p = Inr resp \<and>
           uploadAudioFile e (user_id req) (job_filename e req) = Inr key) \<and>
        (\<forall>u p. charactersUsedOf w' u p =
           (if (u, p) = (user_id req, currentPeriod e) then charactersUsedOf w u p + length t
            else charactersUsedOf w u p)))"

definition conversion_outcome :: "env \<Rightarrow> request \<Rightarrow> world \<Rightarrow> reply \<Rightarrow> world \<Rightarrow> bool" where
  "conversion_outcome e req w r w' \<longleftrightarrow>
     users w' = users w \<and> subscriptions w' = subscriptions w \<and> plans w' = plans w \<and>
     ((reply_status r \<noteq> 200 \<and> no_job w w') \<or> (r = conversion_failed \<and> job_failed w w')
      \<or> (r = conversion_failed \<and> job_commit_failed w w')
      \<or> (reply_status r = 200 \<and> job_completed e req w w'))"

definition rejected :: "world \<Rightarrow> reply \<Rightarrow> world \<Rightarrow> bool" where
  "rejected w r w' \<longleftrightarrow>
     reply_status r \<noteq> 200 \<and> users w' = users w \<and> plans w' = plans w \<and>
     voiceFiles w' = voiceFiles w \<and> voiceFileWrites w' = voiceFileWrites w \<and>
     pollyRequests w' = pollyRequests w \<and> (\<forall>u p. charactersUsedOf w' u p = charactersUsedOf w u p)"

definition admitted :: "env \<Rightarrow> request \<Rightarrow> world \<Rightarrow> bool" where
  "admitted e req w \<longleftrightarrow>
     (\<exists>sid s pl. checkSubscription e (user_id req) w = (Next (sid, s, Some pl), w) \<and>
        processingFiles w (user_id req) < maxConcurrent pl)"

section \<open>Frame lemmas of the voice-file collection\<close>

lemma save_voiceFile_frame [simp]:
  "users (save_voiceFile vf w) = users w"
  "subscriptions (save_voiceFile vf w) = subscriptions w"
  "plans (save_voiceFile vf w) = plans w"
  "usages (save_voiceFile vf w) = usages w"
  "pollyRequests (save_voiceFile vf w) = pollyRequests w"
  "voiceFileWrites (save_voiceFile vf w) = voiceFileWrites w @ [vf]"
  by (simp_all add: save_voiceFile_def)

lemma fold_max_ge: "fold max xs (a::nat) \<ge> a"
  by (induction xs arbitrary: a) (auto intro: order_trans [OF max.cobounded2])

lemma fold_max_mem: "x \<in> set xs \<Longrightarrow> x \<le> fold max xs (a::nat)"
proof (induction xs arbitrary: a)
  case Nil
  then show ?case by simp
next
  case (Cons y ys)
  show ?case
  proof (cases "x = y")
    case True
    have "y \<le> max y a" by simp
    also have "\<dots> \<le> fold max ys (max y a)" by (rule fold_max_ge)
    finally show ?thesis using True by simp
  next
    case False
    with Cons show ?thesis by simp
  qed
qed

lemma new_vf_id_fresh: "f \<in> set (voiceFiles w) \<Longrightarrow> vf_id f < new_vf_id w"
  unfolding new_vf_id_def using fold_max_mem [of "vf_id f" "map vf_id (voiceFiles w @ voiceFileWrites w)" 0]
  by auto

lemma new_vf_id_fresh_writes: "f \<in> set (voiceFileWrites w) \<Longrightarrow> vf_id f < new_vf_id w"
  unfolding new_vf_id_def using fold_max_mem [of "vf_id f" "map vf_id (voiceFiles w @ voiceFileWrites w)" 0]
  by auto

lemma save_new: "vf_id vf = new_vf_id w \<Longrightarrow> voiceFiles (save_voiceFile vf w) = voiceFiles w @ [vf]"
  by (auto simp: save_voiceFile_def dest: new_vf_id_fresh)

lemma map_replace_fresh: "\<forall>f\<in>set fs. vf_id f \<noteq> i \<Longrightarrow> map (\<lambda>f. if vf_id f = i then g else f) fs = fs"
  by (induction fs) auto

lemma save_last:
  "vf_id vf' = vf_id vf \<Longrightarrow> \<forall>f\<in>set fs. vf_id f \<noteq> vf_id vf \<Longrightarrow> voiceFiles w = fs @ [vf] \<Longrightarrow>
   voiceFiles (save_voiceFile vf' w) = fs @ [vf']"
  by (simp add: save_voiceFile_def map_replace_fresh)

section \<open>synthesizeText\<close>

lemma synthesizeText_frame:
  "users (snd (synthesizeText e t v f g w)) = users w"
  "subscriptions (snd (synthesizeText e t v f g w)) = subscriptions w"
  "plans (snd (synthesizeText e t v f g w)) = plans w"
  "usages (snd (synthesizeText e t v f g w)) = usages w"
  "voiceFiles (snd (synthesizeText e t v f g w)) = voiceFiles w"
  "voiceFileWrites (snd (synthesizeText e t v f g w)) = voiceFileWrites w"
  by (simp_all add: synthesizeText_def Let_def split: sum.splits)

lemma synthesizeText_error_nonempty:
  "fst (synthesizeText e t v f g w) = Inl m \<Longrightarrow> m \<noteq> []"
  by (auto simp: synthesizeText_def synthesis_failed_def Let_def split: sum.splits if_splits)

lemma synthesize_and_store_frame:
  "users (snd (synthesize_and_store e uid t v f g n w)) = users w"
  "subscriptions (snd (synthesize_and_store e uid t v f g n w)) = subscriptions w"
  "plans (snd (synthesize_and_store e uid t v f g n w)) = plans w"
  "usages (snd (synthesize_and_store e uid t v f g n w)) = usages w"
  "voiceFiles (snd (synthesize_and_store e uid t v f g n w)) = voiceFiles w"
  "voiceFileWrites (snd (synthesize_and_store e uid t v f g n w)) = voiceFileWrites w"
  using synthesizeText_frame [of e t v f g w]
  by (auto simp: synthesize_and_store_def Let_def split: sum.splits prod.splits)

lemma synthesize_and_store_error_nonempty:
  "fst (synthesize_and_store e uid t v f g n w) = Inl m \<Longrightarrow> m \<noteq> []"
  using synthesizeText_error_nonempty [of e t v f g w]
  by (auto simp: synthesize_and_store_def uploadAudioFile_def generatePresignedDownloadUrl_def Let_def
      split: sum.splits prod.splits if_splits option.splits)

lemma synthesizeText_Inr:
  "fst (synthesizeText e t v f g w) = Inr y \<Longrightarrow>
   \<exists>p resp. pollyRequests (snd (synthesizeText e t v f g w)) = pollyRequests w @ [p] \<and>
      synthesizeSpeech e p = Inr resp"
  by (auto simp: synthesizeText_def Let_def split: sum.splits if_splits)

lemma synthesize_and_store_Inr:
  assumes "fst (synthesize_and_store e uid t v f g n w) = Inr y"
  shows "\<exists>p resp key. pollyRequests (snd (synthesize_and_store e uid t v f g n w)) = pollyRequests w @ [p] \<and>
      synthesizeSpeech e p = Inr resp \<and> uploadAudioFile e uid n = Inr key"
proof (cases "synthesizeText e t v f g w")
  case (Pair x w1)
  with assms obtain sr where x: "x = Inr sr"
    by (cases x) (auto simp: synthesize_and_store_def)
  from synthesizeText_Inr [of e t v f g w sr] Pair x obtain p resp where
    p: "pollyRequests w1 = pollyRequests w @ [p]" "synthesizeSpeech e p = Inr resp" by auto
  from assms Pair x obtain key where k: "uploadAudioFile e uid n = Inr key"
    by (cases "uploadAudioFile e uid n") (auto simp: synthesize_and_store_def Let_def)
  have "snd (synthesize_and_store e uid t v f g n w) = w1"
    using Pair x by (auto simp: synthesize_and_store_def Let_def split: sum.splits)
  then show ?thesis using p k by auto
qed

section \<open>addUsage\<close>

lemma addUsage_frame:
  "users (snd (addUsage e d n dur w)) = users w"
  "subscriptions (snd (addUsage e d n dur w)) = subscriptions w"
  "plans (snd (addUsage e d n dur w)) = plans w"
  "voiceFiles (snd (addUsage e d n dur w)) = voiceFiles w"
  "voiceFileWrites (snd (addUsage e d n dur w)) = voiceFileWrites w"
  "pollyRequests (snd (addUsage e d n dur w)) = pollyRequests w"
  by (simp_all add: addUsage_def Let_def split: option.splits prod.splits)

lemma addUsage_charactersUsedOf:
  "fst (addUsage e d n dur w) = Inr d' \<Longrightarrow>
   charactersUsedOf (snd (addUsage e d n dur w)) u p =
     (if (u, p) = (usage_user d, usage_period d) then charactersUsedOf w u p + n
      else charactersUsedOf w u p)"
  by (auto simp: addUsage_def charactersUsedOf_def Let_def zero_usage_def split: option.splits)

lemma addUsage_rejected:
  "fst (addUsage e d n dur w) = Inl m \<Longrightarrow> snd (addUsage e d n dur w) = w \<and> m \<noteq> []"
  by (auto simp: addUsage_def Let_def split: option.splits)

lemma charactersUsedOf_cong: "usages w' = usages w \<Longrightarrow> charactersUsedOf w' u p = charactersUsedOf w u p"
  by (simp add: charactersUsedOf_def)

section \<open>run_conversion\<close>

lemma run_conversion_cases:
  assumes run: "run_conversion e uid t vid fmt eng d vf w = (r, w')"
    and stored: "voiceFiles w = fs @ [vf]"
    and fresh: "\<forall>f\<in>set fs. vf_id f \<noteq> vf_id vf"
  shows "users w' = users w \<and> subscriptions w' = subscriptions w \<and> plans w' = plans w \<and>
    ((\<exists>m. r = conversion_failed \<and> m \<noteq> [] \<and>
          voiceFiles w' = fs @ [vf\<lparr>vf_status := failed, errorMessage := Some m\<rparr>] \<and>
          voiceFileWrites w' = voiceFileWrites w @ [vf\<lparr>vf_status := failed, errorMessage := Some m\<rparr>] \<and>
          usages w' = usages w)
     \<or> (\<exists>vf' m. r = conversion_failed \<and> m \<noteq> [] \<and> vf_id vf' = vf_id vf \<and>
          vf_status vf' = completed \<and>
          voiceFiles w' = fs @ [vf'\<lparr>vf_status := failed, errorMessage := Some m\<rparr>] \<and>
          voiceFileWrites w' =
            voiceFileWrites w @ [vf', vf'\<lparr>vf_status := failed, errorMessage := Some m\<rparr>] \<and>
          usages w' = usages w)
     \<or> (\<exists>vf'. reply_status r = 200 \<and> vf_id vf' = vf_id vf \<and> vf_status vf' = completed \<and>
          voiceFiles w' = fs @ [vf'] \<and> voiceFileWrites w' = voiceFileWrites w @ [vf'] \<and>
          (\<exists>p resp key. pollyRequests w' = pollyRequests w @ [p] \<and>
             synthesizeSpeech e p = Inr resp \<and> uploadAudioFile e uid (filename vf) = Inr key) \<and>
          (\<forall>u p. charactersUsedOf w' u p =
             (if (u, p) = (usage_user d, usage_period d) then charactersUsedOf w u p + length t
              else charactersUsedOf w u p))))"
proof (cases "synthesize_and_store e uid t vid fmt eng (filename vf) w")
  case (Pair x w1)
  have fr: "users w1 = users w" "subscriptions w1 = subscriptions w" "plans w1 = plans w"
    "usages w1 = usages w" "voiceFiles w1 = voiceFiles w" "voiceFileWrites w1 = voiceFileWrites w"
    using synthesize_and_store_frame [of e uid t vid fmt eng "filename vf" w] Pair by simp_all
  show ?thesis
  proof (cases x)
    case (Inl m)
    have ne: "m \<noteq> []"
      using synthesize_and_store_error_nonempty [of e uid t vid fmt eng "filename vf" w m] Pair Inl
      by simp
    let ?vf = "vf\<lparr>vf_status := failed, errorMessage := Some m\<rparr>"
    have w': "w' = save_voiceFile ?vf w1" and r: "r = conversion_failed"
      using run Pair Inl by (simp_all add: run_conversion_def)
    have "voiceFiles w' = fs @ [?vf]"
      unfolding w' by (rule save_last [where vf = vf]) (use fresh stored fr in simp_all)
    then show ?thesis using ne r fr by (auto simp: w')
  next
    case (Inr y)
    obtain sr est key url where y: "y = (sr, est, key, url)" by (cases y) auto
    let ?vf = "vf\<lparr>s3Key := key, audioUrl := url, fileSize := length (audioBuffer sr),
                  duration := est, vf_status := completed\<rparr>"
    let ?w2 = "save_voiceFile ?vf w1"
    have vfs: "voiceFiles ?w2 = fs @ [?vf]"
      by (rule save_last [where vf = vf]) (use fresh stored fr in simp_all)
    have wrs: "voiceFileWrites ?w2 = voiceFileWrites w @ [?vf]"
      by (simp add: fr)
    obtain c w3 where au: "addUsage e d (length t) est ?w2 = (c, w3)"
      by (cases "addUsage e d (length t) est ?w2")
    show ?thesis
    proof (cases c)
      case (Inl m)
      from addUsage_rejected [of e d "length t" est ?w2 m] au Inl
      have w3: "w3 = ?w2" and ne: "m \<noteq> []" by simp_all
      let ?vff = "?vf\<lparr>vf_status := failed, errorMessage := Some m\<rparr>"
      have w': "w' = save_voiceFile ?vff ?w2" and r: "r = conversion_failed"
        using run Pair \<open>x = Inr y\<close> y au Inl w3 by (simp_all add: run_conversion_def Let_def)
      have files: "voiceFiles w' = fs @ [?vff]"
        unfolding w' by (rule save_last [where vf = ?vf]) (use fresh vfs in simp_all)
      have writes: "voiceFileWrites w' = voiceFileWrites w @ [?vf, ?vff]"
        unfolding w' by (simp add: fr)
      have "r = conversion_failed \<and> m \<noteq> [] \<and> vf_id ?vf = vf_id vf \<and> vf_status ?vf = completed \<and>
          voiceFiles w' = fs @ [?vff] \<and> voiceFileWrites w' = voiceFileWrites w @ [?vf, ?vff] \<and>
          usages w' = usages w"
        using r ne files writes by (simp add: w' fr)
      then have "\<exists>vf' m. r = conversion_failed \<and> m \<noteq> [] \<and> vf_id vf' = vf_id vf \<and>
          vf_status vf' = completed \<and>
          voiceFiles w' = fs @ [vf'\<lparr>vf_status := failed, errorMessage := Some m\<rparr>] \<and>
          voiceFileWrites w' =
            voiceFileWrites w @ [vf', vf'\<lparr>vf_status := failed, errorMessage := Some m\<rparr>] \<and>
          usages w' = usages w"
        by blast
      moreover have "users w' = users w \<and> subscriptions w' = subscriptions w \<and> plans w' = plans w"
        by (simp add: w' fr)
      ultimately show ?thesis by blast
    next
      case (Inr d')
      have w': "w' = snd (addUsage e d (length t) est ?w2)"
        and r: "reply_status r = 200"
        using run Pair \<open>x = Inr y\<close> y au Inr by (auto simp: run_conversion_def Let_def)
      have ok: "fst (addUsage e d (length t) est ?w2) = Inr d'" using au Inr by simp
      have used: "charactersUsedOf ?w2 u p = charactersUsedOf w u p" for u p
        by (rule charactersUsedOf_cong) (simp add: fr)
      have "\<exists>p resp key. pollyRequests w1 = pollyRequests w @ [p] \<and>
          synthesizeSpeech e p = Inr resp \<and> uploadAudioFile e uid (filename vf) = Inr key"
        using synthesize_and_store_Inr [of e uid t vid fmt eng "filename vf" w y] Pair \<open>x = Inr y\<close>
        by simp
      then have polly: "\<exists>p resp key. pollyRequests w' = pollyRequests w @ [p] \<and>
          synthesizeSpeech e p = Inr resp \<and> uploadAudioFile e uid (filename vf) = Inr key"
        by (simp add: w' addUsage_frame)
      have "reply_status r = 200 \<and> vf_id ?vf = vf_id vf \<and> vf_status ?vf = completed \<and>
          voiceFiles w' = fs @ [?vf] \<and> voiceFileWrites w' = voiceFileWrites w @ [?vf] \<and>
          (\<exists>p resp key. pollyRequests w' = pollyRequests w @ [p] \<and>
             synthesizeSpeech e p = Inr resp \<and> uploadAudioFile e uid (filename vf) = Inr key) \<and>
          (\<forall>u p. charactersUsedOf w' u p =
             (if (u, p) = (usage_user d, usage_period d) then charactersUsedOf w u p + length t
              else charactersUsedOf w u p))"
        using r vfs wrs polly used
        by (simp add: w' addUsage_frame addUsage_charactersUsedOf [OF ok])
      then have "\<exists>vf'. reply_status r = 200 \<and> vf_id vf' = vf_id vf \<and> vf_status vf' = completed \<and>
          voiceFiles w' = fs @ [vf'] \<and> voiceFileWrites w' = voiceFileWrites w @ [vf'] \<and>
          (\<exists>p resp key. pollyRequests w' = pollyRequests w @ [p] \<and>
             synthesizeSpeech e p = Inr resp \<and> uploadAudioFile e uid (filename vf) = Inr key) \<and>
          (\<forall>u p. charactersUsedOf w' u p =
             (if (u, p) = (usage_user d, usage_period d) then charactersUsedOf w u p + length t
              else charactersUsedOf w u p))"
        by blast
      moreover have "users w' = users w \<and> subscriptions w' = subscriptions w \<and> plans w' = plans w"
        by (simp add: w' addUsage_frame fr)
      ultimately show ?thesis by blast
    qed
  qed
qed

section \<open>getOrCreateCurrentUsage\<close>

lemma getOrCreateCurrentUsage_frame:
  "users (snd (getOrCreateCurrentUsage e uid sid w)) = users w"
  "subscriptions (snd (getOrCreateCurrentUsage e uid sid w)) = subscriptions w"
  "plans (snd (getOrCreateCurrentUsage e uid sid w)) = plans w"
  "voiceFiles (snd (getOrCreateCurrentUsage e uid sid w)) = voiceFiles w"
  "voiceFileWrites (snd (getOrCreateCurrentUsage e uid sid w)) = voiceFileWrites w"
  "pollyRequests (snd (getOrCreateCurrentUsage e uid sid w)) = pollyRequests w"
  by (simp_all add: getOrCreateCurrentUsage_def split: option.splits)

lemma getOrCreateCurrentUsage_used:
  "charactersUsedOf (snd (getOrCreateCurrentUsage e uid sid w)) u p = charactersUsedOf w u p"
  by (auto simp: getOrCreateCurrentUsage_def charactersUsedOf_def zero_usage_def split: option.splits)

lemma getOrCreateCurrentUsage_doc:
  "usage_user (fst (getOrCreateCurrentUsage e uid sid w)) = uid"
  "usage_period (fst (getOrCreateCurrentUsage e uid sid w)) = currentPeriod e"
  "charactersUsed (counters (fst (getOrCreateCurrentUsage e uid sid w))) = charactersUsedOf w uid (currentPeriod e)"
  "charactersLimit (fst (getOrCreateCurrentUsage e uid sid w)) = plan_limit w sid"
  by (auto simp: getOrCreateCurrentUsage_def charactersUsedOf_def zero_usage_def split: option.splits)

lemma new_vf_id_cong:
  "voiceFiles w' = voiceFiles w \<Longrightarrow> voiceFileWrites w' = voiceFileWrites w \<Longrightarrow> new_vf_id w' = new_vf_id w"
  by (simp add: new_vf_id_def)

lemma non_empty_Some: "non_empty a b = Some (t, v) \<Longrightarrow> a = Some t \<and> b = Some v \<and> t \<noteq> [] \<and> v \<noteq> []"
  by (cases a; cases b) (auto split: if_splits)

section \<open>convertTextToSpeech\<close>

lemma conversion_outcome_no_job:
  "reply_status r \<noteq> 200 \<Longrightarrow> users w' = users w \<Longrightarrow> subscriptions w' = subscriptions w \<Longrightarrow>
   plans w' = plans w \<Longrightarrow> voiceFiles w' = voiceFiles w \<Longrightarrow>
   voiceFileWrites w' = voiceFileWrites w \<Longrightarrow> pollyRequests w' = pollyRequests w \<Longrightarrow>
   (\<And>u p. charactersUsedOf w' u p = charactersUsedOf w u p) \<Longrightarrow> conversion_outcome e req w r w'"
  by (simp add: conversion_outcome_def no_job_def)

lemma conversion_outcome_refl: "reply_status r \<noteq> 200 \<Longrightarrow> conversion_outcome e req w r w"
  by (simp add: conversion_outcome_def no_job_def)

lemma convertTextToSpeech_cases:
  assumes run: "convertTextToSpeech e req w = (r, w')"
  shows "conversion_outcome e req w r w'"
proof (cases "non_empty (body_text (body req)) (body_voiceId (body req))")
  case None
  with run have "r = Json 400 False ''Text and voice ID are required'' None NoData" "w' = w"
    by (simp_all add: convertTextToSpeech_def Let_def)
  then show ?thesis by (simp add: conversion_outcome_refl)
next
  case (Some tv)
  obtain t vid where tv: "tv = (t, vid)" by (cases tv)
  note ne = non_empty_Some [OF Some [unfolded tv]]
  let ?uid = "user_id req"
  let ?fmt = "case body_outputFormat (body req) of None \<Rightarrow> ''mp3'' | Some f \<Rightarrow> f"
  let ?eng = "case body_engine (body req) of None \<Rightarrow> ''standard'' | Some g \<Rightarrow> g"
  note unf = convertTextToSpeech_def Let_def Some tv
  show ?thesis
  proof (cases "length t > 300000")
    case True
    with run have "r = Json 400 False ''Text cannot exceed 300000 characters'' None NoData" "w' = w"
      by (simp_all add: unf)
    then show ?thesis by (simp add: conversion_outcome_refl)
  next
    case len: False
    show ?thesis
    proof (cases "users w ?uid")
      case None
      with run len have "r = conversion_failed" "w' = w" by (simp_all add: unf)
      then show ?thesis by (simp add: conversion_outcome_refl conversion_failed_def)
    next
      case u: (Some u)
      show ?thesis
      proof (cases "populate_subscription w u")
        case None
        with run len u have "r = Json 403 False ''Active subscription required'' None NoData" "w' = w"
          by (simp_all add: unf)
        then show ?thesis by (simp add: conversion_outcome_refl)
      next
        case (Some ss)
        obtain sid s where ss: "ss = (sid, s)" by (cases ss)
        note ps = Some [unfolded ss]
        show ?thesis
        proof (cases "status s = active")
          case False
          with run len u ps have "r = Json 403 False ''Active subscription required'' None NoData" "w' = w"
            by (simp_all add: unf)
          then show ?thesis by (simp add: conversion_outcome_refl)
        next
          case act: True
          obtain d w1 where g: "getOrCreateCurrentUsage e ?uid sid w = (d, w1)"
            by (cases "getOrCreateCurrentUsage e ?uid sid w")
          have fr: "users w1 = users w" "subscriptions w1 = subscriptions w" "plans w1 = plans w"
            "voiceFiles w1 = voiceFiles w" "voiceFileWrites w1 = voiceFileWrites w"
            "pollyRequests w1 = pollyRequests w"
            using getOrCreateCurrentUsage_frame [of e ?uid sid w] g by simp_all
          have used: "charactersUsedOf w1 u' p = charactersUsedOf w u' p" for u' p
            using getOrCreateCurrentUsage_used [of e ?uid sid w u' p] g by simp
          have dk: "usage_user d = ?uid" "usage_period d = currentPeriod e"
            using getOrCreateCurrentUsage_doc [of e ?uid sid w] g by simp_all
          have nid: "new_vf_id w1 = new_vf_id w" by (rule new_vf_id_cong) (simp_all add: fr)
          have early: "conversion_outcome e req w r' w1" if "reply_status r' \<noteq> 200" for r'
            using that fr used by (intro conversion_outcome_no_job) simp_all
          show ?thesis
          proof (cases "hasQuota d (length t)")
            case False
            with run len u ps act g have "w' = w1" "reply_status r = 403"
              by (auto simp: unf)
            then show ?thesis using early [of r] by simp
          next
            case q: True
            show ?thesis
            proof (cases "getVoiceById e vid")
              case (Inl m)
              with run len u ps act g q have "w' = w1" "reply_status r = 500"
                by (auto simp: unf conversion_failed_def)
              then show ?thesis using early [of r] by simp
            next
              case (Inr vo)
              show ?thesis
              proof (cases vo)
                case None
                with run len u ps act g q Inr have "w' = w1" "reply_status r = 400"
                  by (auto simp: unf)
                then show ?thesis using early [of r] by simp
              next
                case (Some v)
                define vf where "vf = \<lparr>vf_id = new_vf_id w1, vf_user = ?uid,
                    filename = job_filename e req,
                    originalText = t, textLength = length t, voice = \<lparr>fv_id = voice_id v, fv_name = voice_name v,
                                                    fv_language = voice_language v,
                                                    fv_gender = voice_gender v\<rparr>,
                                                  audioFormat = ?fmt,
                    vf_status = processing, audioUrl = ''PENDING'', s3Key = ''PENDING'',
                    duration = 0, fileSize = 0, errorMessage = None, downloadCount = 0,
                    lastDownloadedAt = None, createdAt = now e\<rparr>"
                let ?w2 = "save_voiceFile vf w1"
                have vid': "vf_id vf = new_vf_id w" "vf_status vf = processing"
                  "filename vf = job_filename e req"
                  by (simp_all add: vf_def nid)
                have rc: "run_conversion e ?uid t vid ?fmt ?eng d vf ?w2 = (r, w')"
                  using run len u ps act g q Inr Some by (simp add: unf vf_def)
                have st: "voiceFiles ?w2 = voiceFiles w @ [vf]"
                  using save_new [of vf w1] vid' fr nid by simp
                have wr: "voiceFileWrites ?w2 = voiceFileWrites w @ [vf]"
                  by (simp add: fr)
                have fresh: "\<forall>f\<in>set (voiceFiles w). vf_id f \<noteq> vf_id vf"
                  using vid' by (auto dest: new_vf_id_fresh)
                have used2: "charactersUsedOf ?w2 u' p = charactersUsedOf w u' p" for u' p
                  using used [of u' p] charactersUsedOf_cong [of ?w2 w1 u' p] by simp
                note rcc = run_conversion_cases [OF rc st fresh]
                then have base: "users w' = users w" "subscriptions w' = subscriptions w" "plans w' = plans w"
                  by (simp_all add: fr)
                from rcc consider
                  (fails) m where "r = conversion_failed" "m \<noteq> []"
                    "voiceFiles w' = voiceFiles w @ [vf\<lparr>vf_status := failed, errorMessage := Some m\<rparr>]"
                    "voiceFileWrites w' = voiceFileWrites ?w2 @ [vf\<lparr>vf_status := failed, errorMessage := Some m\<rparr>]"
                    "usages w' = usages ?w2"
                  | (commit_fails) vf' m where "r = conversion_failed" "m \<noteq> []"
                    "vf_id vf' = vf_id vf" "vf_status vf' = completed"
                    "voiceFiles w' = voiceFiles w @ [vf'\<lparr>vf_status := failed, errorMessage := Some m\<rparr>]"
                    "voiceFileWrites w' =
                       voiceFileWrites ?w2 @ [vf', vf'\<lparr>vf_status := failed, errorMessage := Some m\<rparr>]"
                    "usages w' = usages ?w2"
                  | (succeeds) vf' where "reply_status r = 200" "vf_id vf' = vf_id vf" "vf_status vf' = completed"
                    "voiceFiles w' = voiceFiles w @ [vf']" "voiceFileWrites w' = voiceFileWrites ?w2 @ [vf']"
                    "\<exists>p resp key. pollyRequests w' = pollyRequests ?w2 @ [p] \<and>
                       synthesizeSpeech e p = Inr resp \<and>
                       uploadAudioFile e ?uid (filename vf) = Inr key"
                    "\<forall>u p. charactersUsedOf w' u p =
                       (if (u, p) = (usage_user d, usage_period d) then charactersUsedOf ?w2 u p + length t
                        else charactersUsedOf ?w2 u p)"
                  by blast
                then show ?thesis
                proof cases
                  case fails
                  have "charactersUsedOf w' u' p = charactersUsedOf w u' p" for u' p
                    using charactersUsedOf_cong [OF fails(5), of u' p] used2 [of u' p] by simp
                  then have "job_failed w w'"
                    unfolding job_failed_def using fails vid' wr
                    by (intro exI [of _ vf] exI [of _ m]) simp
                  then show ?thesis using base fails(1) by (simp add: conversion_outcome_def)
                next
                  case commit_fails
                  have "charactersUsedOf w' u' p = charactersUsedOf w u' p" for u' p
                    using charactersUsedOf_cong [OF commit_fails(7), of u' p] used2 [of u' p] by simp
                  then have "job_commit_failed w w'"
                    unfolding job_commit_failed_def using commit_fails vid' wr
                    by (intro exI [of _ vf] exI [of _ vf'] exI [of _ m]) simp
                  then show ?thesis using base commit_fails(1) by (simp add: conversion_outcome_def)
                next
                  case succeeds
                  have "job_completed e req w w'"
                    unfolding job_completed_def using succeeds vid' wr ne dk used2 fr
                    by (intro exI [of _ vf] exI [of _ vf'] exI [of _ t]) simp
                  then show ?thesis using base succeeds(1) by (simp add: conversion_outcome_def)
                qed
              qed
            qed
          qed
        qed
      qed
    qed
  qed
qed

lemma run_conversion_code: "reply_code (fst (run_conversion e uid t vid fmt eng d vf w)) = None"
  by (simp add: run_conversion_def conversion_failed_def Let_def split: prod.splits sum.splits)

lemma convertTextToSpeech_code: "reply_code (fst (convertTextToSpeech e req w)) = None"
  using run_conversion_code
  by (simp add: convertTextToSpeech_def conversion_failed_def Let_def
      split: prod.splits sum.splits option.splits)

section \<open>Middleware\<close>

lemma checkSubscription_Next:
  assumes "checkSubscription e uid w = (Next (sid, s, p), w1)"
  shows "w1 = w \<and> subscriptions w sid = Some s \<and> status s = active \<and> p = populate_plan w s"
  using assms
  by (auto simp: checkSubscription_def populate_subscription_def
      split: option.splits if_splits prod.splits)

lemma rejected_refl: "reply_status r \<noteq> 200 \<Longrightarrow> rejected w r w"
  by (simp add: rejected_def)

lemma checkSubscription_Respond:
  assumes "checkSubscription e uid w = (Respond r, w1)"
  shows "rejected w r w1 \<and> reply_code r \<noteq> Some QUOTA_EXCEEDED \<and> reply_code r \<noteq> Some CONCURRENT_LIMIT_EXCEEDED"
  using assms
  by (auto simp: checkSubscription_def rejected_def save_subscription_def charactersUsedOf_def
      split: option.splits if_splits prod.splits)

lemma checkCharacterLimit_frame:
  assumes "checkCharacterLimit e req sid w = (x, w1)"
  shows "users w1 = users w \<and> subscriptions w1 = subscriptions w \<and> plans w1 = plans w \<and>
     voiceFiles w1 = voiceFiles w \<and> voiceFileWrites w1 = voiceFileWrites w \<and>
     pollyRequests w1 = pollyRequests w \<and> (\<forall>u p. charactersUsedOf w1 u p = charactersUsedOf w u p)"
proof -
  have "w1 = w \<or> w1 = snd (getOrCreateCurrentUsage e (user_id req) sid w)"
    using assms by (auto simp: checkCharacterLimit_def split: option.splits if_splits prod.splits)
  then show ?thesis
    using getOrCreateCurrentUsage_frame [of e "user_id req" sid w]
      getOrCreateCurrentUsage_used [of e "user_id req" sid w]
    by auto
qed

lemma checkCharacterLimit_Respond:
  assumes "checkCharacterLimit e req sid w = (Respond r, w1)"
  shows "reply_status r \<noteq> 200 \<and> reply_code r \<noteq> Some CONCURRENT_LIMIT_EXCEEDED"
  using assms by (auto simp: checkCharacterLimit_def split: option.splits if_splits prod.splits)

lemma checkConcurrentRequests_Respond:
  assumes "checkConcurrentRequests req p w = Respond r"
  shows "reply_status r \<noteq> 200"
  using assms by (auto simp: checkConcurrentRequests_def split: option.splits if_splits)

lemma checkConcurrentRequests_Next:
  assumes "checkConcurrentRequests req p w = Next y"
  shows "\<exists>pl. p = Some pl \<and> processingFiles w (user_id req) < maxConcurrent pl"
  using assms by (auto simp: checkConcurrentRequests_def split: option.splits if_splits)

lemma processingFiles_cong: "voiceFiles w' = voiceFiles w \<Longrightarrow> processingFiles w' u = processingFiles w u"
  by (simp add: processingFiles_def)

section \<open>The route\<close>

lemma charactersUsedOf_ext:
  "\<forall>u p. charactersUsedOf w2 u p = charactersUsedOf w u p \<Longrightarrow> charactersUsedOf w2 = charactersUsedOf w"
  by (intro ext) blast

lemma job_failed_cong:
  assumes "job_failed w2 w'" "voiceFiles w2 = voiceFiles w" "voiceFileWrites w2 = voiceFileWrites w"
    "\<forall>u p. charactersUsedOf w2 u p = charactersUsedOf w u p"
  shows "job_failed w w'"
  using assms(1) unfolding job_failed_def
  by (simp only: assms(2,3) new_vf_id_cong [OF assms(2,3)] charactersUsedOf_ext [OF assms(4)])

lemma job_commit_failed_cong:
  assumes "job_commit_failed w2 w'" "voiceFiles w2 = voiceFiles w"
    "voiceFileWrites w2 = voiceFileWrites w"
    "\<forall>u p. charactersUsedOf w2 u p = charactersUsedOf w u p"
  shows "job_commit_failed w w'"
  using assms(1) unfolding job_commit_failed_def
  by (simp only: assms(2,3) new_vf_id_cong [OF assms(2,3)] charactersUsedOf_ext [OF assms(4)])

lemma job_completed_cong:
  assumes "job_completed e req w2 w'" "voiceFiles w2 = voiceFiles w" "voiceFileWrites w2 = voiceFileWrites w"
    "\<forall>u p. charactersUsedOf w2 u p = charactersUsedOf w u p" "pollyRequests w2 = pollyRequests w"
  shows "job_completed e req w w'"
  using assms(1) unfolding job_completed_def
  by (simp only: assms(2,3,5) new_vf_id_cong [OF assms(2,3)] charactersUsedOf_ext [OF assms(4)])

lemma convert_route_cases:
  assumes run: "convert_route e req w = (r, w')"
  shows "rejected w r w' \<or>
     (admitted e req w \<and> reply_code r = None \<and>
      users w' = users w \<and> subscriptions w' = subscriptions w \<and> plans w' = plans w \<and>
      ((r = conversion_failed \<and> job_failed w w') \<or> (r = conversion_failed \<and> job_commit_failed w w')
       \<or> (reply_status r = 200 \<and> job_completed e req w w')))"
proof (cases "checkSubscription e (user_id req) w")
  case (Pair o1 w1)
  show ?thesis
  proof (cases o1)
    case (Respond r1)
    with run Pair have "r = r1" "w' = w1" by (simp_all add: convert_route_def)
    then show ?thesis using checkSubscription_Respond [of e "user_id req" w r1 w1] Pair Respond by simp
  next
    case (Next x)
    obtain sid s p where x: "x = (sid, s, p)" by (cases x)
    note cs = Pair [unfolded Next x]
    from checkSubscription_Next [OF cs] have w1: "w1 = w" by simp
    note cs' = cs [unfolded w1]
    obtain o2 w2 where cl: "checkCharacterLimit e req sid w = (o2, w2)"
      by (cases "checkCharacterLimit e req sid w")
    note fr = checkCharacterLimit_frame [OF cl]
    have rej: "rejected w r' w2" if "reply_status r' \<noteq> 200" for r'
      using that fr by (simp add: rejected_def)
    show ?thesis
    proof (cases o2)
      case (Respond r2)
      with run cs' cl have "r = r2" "w' = w2" by (simp_all add: convert_route_def)
      then show ?thesis using checkCharacterLimit_Respond [of e req sid w r2 w2] cl Respond rej by simp
    next
      case n2: (Next x2)
      show ?thesis
      proof (cases "checkConcurrentRequests req p w2")
        case (Respond r3)
        with run cs' cl n2 have "r = r3" "w' = w2" by (simp_all add: convert_route_def)
        then show ?thesis using checkConcurrentRequests_Respond [OF Respond] rej by simp
      next
        case n3: (Next y)
        from checkConcurrentRequests_Next [OF n3] obtain pl where
          pl: "p = Some pl" "processingFiles w2 (user_id req) < maxConcurrent pl" by auto
        have adm: "admitted e req w"
          unfolding admitted_def using cs' pl processingFiles_cong [of w2 w] fr by auto
        show ?thesis
        proof (cases "ttsLimiter e")
          case (Some m)
          with run cs' cl n2 n3 have "r = Json 429 False m None NoData" "w' = w2"
            by (simp_all add: convert_route_def)
          then show ?thesis using rej by simp
        next
          case None
          show ?thesis
          proof (cases "ttsValidation (body req)")
            case False
            with run cs' cl n2 n3 None have "r = validation_failed" "w' = w2"
              by (simp_all add: convert_route_def)
            then show ?thesis using rej by (simp add: validation_failed_def)
          next
            case True
            with run cs' cl n2 n3 None have c: "convertTextToSpeech e req w2 = (r, w')"
              by (simp add: convert_route_def)
            have code: "reply_code r = None"
              using convertTextToSpeech_code [of e req w2] c by simp
            from convertTextToSpeech_cases [OF c] consider
              (a) "reply_status r \<noteq> 200" "no_job w2 w'"
              | (b) "users w' = users w2" "subscriptions w' = subscriptions w2" "plans w' = plans w2"
                  "r = conversion_failed" "job_failed w2 w'"
              | (b2) "users w' = users w2" "subscriptions w' = subscriptions w2" "plans w' = plans w2"
                  "r = conversion_failed" "job_commit_failed w2 w'"
              | (c) "users w' = users w2" "subscriptions w' = subscriptions w2" "plans w' = plans w2"
                  "reply_status r = 200" "job_completed e req w2 w'"
              unfolding conversion_outcome_def by blast
            then show ?thesis
            proof cases
              case a
              from convertTextToSpeech_cases [OF c] have "users w' = users w2" "plans w' = plans w2"
                by (simp_all add: conversion_outcome_def)
              then have "rejected w r w'" using a fr by (simp add: rejected_def no_job_def)
              then show ?thesis ..
            next
              case b
              have "job_failed w w'" by (rule job_failed_cong [OF b(5)]) (use fr in simp_all)
              then show ?thesis using b adm code fr by simp
            next
              case b2
              have "job_commit_failed w w'"
                by (rule job_commit_failed_cong [OF b2(5)]) (use fr in simp_all)
              then show ?thesis using b2 adm code fr by simp
            next
              case c
              have "job_completed e req w w'" by (rule job_completed_cong [OF c(5)]) (use fr in simp_all)
              then show ?thesis using c adm code fr by simp
            qed
          qed
        qed
      qed
    qed
  qed
qed

section \<open>Quota, provider and download lemmas\<close>

lemma plan_limit_of:
  "subscriptions w sid = Some s \<Longrightarrow> populate_plan w s = Some pl \<Longrightarrow>
   plan_limit w sid = charactersPerMonth (features pl)"
  by (simp add: plan_limit_def)

lemma checkCharacterLimit_Next_iff:
  assumes "body_text (body req) = Some t" "t \<noteq> []"
  shows "(\<exists>x w2. checkCharacterLimit e req sid w = (Next x, w2)) \<longleftrightarrow>
     charactersUsedOf w (user_id req) (currentPeriod e) + length t \<le> plan_limit w sid"
proof -
  obtain d w1 where g: "getOrCreateCurrentUsage e (user_id req) sid w = (d, w1)"
    by (cases "getOrCreateCurrentUsage e (user_id req) sid w")
  have d: "charactersUsed (counters d) = charactersUsedOf w (user_id req) (currentPeriod e)"
    "charactersLimit d = plan_limit w sid"
    using getOrCreateCurrentUsage_doc [of e "user_id req" sid w] g by simp_all
  show ?thesis
    using assms g d by (auto simp: checkCharacterLimit_def hasQuota_def)
qed

lemma checkCharacterLimit_over:
  assumes "body_text (body req) = Some t" "t \<noteq> []"
    and "plan_limit w sid < charactersUsedOf w (user_id req) (currentPeriod e) + length t"
  shows "\<exists>r w2. checkCharacterLimit e req sid w = (Respond r, w2) \<and> reply_code r = Some QUOTA_EXCEEDED \<and>
           reply_status r = 403"
proof -
  obtain d w1 where g: "getOrCreateCurrentUsage e (user_id req) sid w = (d, w1)"
    by (cases "getOrCreateCurrentUsage e (user_id req) sid w")
  have d: "charactersUsed (counters d) = charactersUsedOf w (user_id req) (currentPeriod e)"
    "charactersLimit d = plan_limit w sid"
    using getOrCreateCurrentUsage_doc [of e "user_id req" sid w] g by simp_all
  show ?thesis
    using assms g d by (auto simp: checkCharacterLimit_def hasQuota_def)
qed

lemma convert_route_over_quota:
  assumes gate: "checkSubscription e (user_id req) w = (Next (sid, s, Some pl), w1)"
    and nonempty: "body_text (body req) = Some t" "t \<noteq> []"
    and over: "charactersPerMonth (features pl)
        < charactersUsedOf w (user_id req) (currentPeriod e) + length t"
  shows "reply_code (fst (convert_route e req w)) = Some QUOTA_EXCEEDED \<and>
      pollyRequests (snd (convert_route e req w)) = pollyRequests w \<and>
      voiceFileWrites (snd (convert_route e req w)) = voiceFileWrites w"
proof -
  from checkSubscription_Next [OF gate] have w1: "w1 = w" and s: "subscriptions w sid = Some s"
    and pl: "populate_plan w s = Some pl" by simp_all
  have lim: "plan_limit w sid = charactersPerMonth (features pl)" by (rule plan_limit_of [OF s pl])
  from checkCharacterLimit_over [OF nonempty, of w sid e] over lim obtain r w2 where
    cl: "checkCharacterLimit e req sid w = (Respond r, w2)" and r: "reply_code r = Some QUOTA_EXCEEDED"
    by auto
  have route: "convert_route e req w = (r, w2)"
    using gate cl w1 by (simp add: convert_route_def)
  from checkCharacterLimit_frame [OF cl] show ?thesis using route r by simp
qed

lemma convert_route_concurrency:
  assumes gate: "checkSubscription e (user_id req) w = (Next (sid, s, Some pl), w1)"
    and quota: "checkCharacterLimit e req sid w1 = (Next x, w2)"
  shows "reply_code (fst (convert_route e req w)) = Some CONCURRENT_LIMIT_EXCEEDED \<longleftrightarrow>
     maxConcurrent pl \<le> processingFiles w (user_id req)"
proof -
  from checkSubscription_Next [OF gate] have w1: "w1 = w" by simp
  from checkCharacterLimit_frame [OF quota] have "voiceFiles w2 = voiceFiles w" by (simp add: w1)
  then have pf: "processingFiles w2 (user_id req) = processingFiles w (user_id req)"
    by (rule processingFiles_cong)
  show ?thesis
  proof (cases "maxConcurrent pl \<le> processingFiles w (user_id req)")
    case True
    then have "reply_code (fst (convert_route e req w)) = Some CONCURRENT_LIMIT_EXCEEDED"
      using gate quota pf by (simp add: convert_route_def checkConcurrentRequests_def)
    with True show ?thesis by simp
  next
    case False
    then have cc: "checkConcurrentRequests req (Some pl) w2 = Next ()"
      using pf by (simp add: checkConcurrentRequests_def)
    have "reply_code (fst (convert_route e req w)) = None"
      using gate quota cc convertTextToSpeech_code [of e req w2]
      by (simp add: convert_route_def validation_failed_def split: option.splits)
    with False show ?thesis by simp
  qed
qed

lemma job_failed_writes: "job_failed w w' \<Longrightarrow> voiceFileWrites w' \<noteq> voiceFileWrites w"
  by (auto simp: job_failed_def)

lemma job_commit_failed_writes: "job_commit_failed w w' \<Longrightarrow> voiceFileWrites w' \<noteq> voiceFileWrites w"
  by (auto simp: job_commit_failed_def)

lemma job_completed_writes: "job_completed e req w w' \<Longrightarrow> voiceFileWrites w' \<noteq> voiceFileWrites w"
  by (auto simp: job_completed_def)

lemma failed_job_stored:
  assumes "job_failed w w' \<or> job_commit_failed w w'"
  shows "(\<forall>u p. charactersUsedOf w' u p = charactersUsedOf w u p)
     \<and> (\<exists>vf m. voiceFiles w' = voiceFiles w @ [vf] \<and> last (voiceFileWrites w') = vf \<and>
           vf_id vf = new_vf_id w \<and> vf_status vf = failed \<and>
           errorMessage vf = Some m \<and> m \<noteq> [])"
  using assms
proof
  assume "job_failed w w'"
  then obtain vf m where m: "m \<noteq> []" and vf: "vf_id vf = new_vf_id w"
    and files: "voiceFiles w' = voiceFiles w @ [vf\<lparr>vf_status := failed, errorMessage := Some m\<rparr>]"
    and writes: "voiceFileWrites w' = voiceFileWrites w @ [vf, vf\<lparr>vf_status := failed, errorMessage := Some m\<rparr>]"
    and used: "\<forall>u p. charactersUsedOf w' u p = charactersUsedOf w u p"
    unfolding job_failed_def by blast
  let ?vf = "vf\<lparr>vf_status := failed, errorMessage := Some m\<rparr>"
  have "voiceFiles w' = voiceFiles w @ [?vf] \<and> last (voiceFileWrites w') = ?vf \<and>
      vf_id ?vf = new_vf_id w \<and> vf_status ?vf = failed \<and> errorMessage ?vf = Some m \<and> m \<noteq> []"
    using m vf files writes by simp
  then have "\<exists>vf m. voiceFiles w' = voiceFiles w @ [vf] \<and> last (voiceFileWrites w') = vf \<and>
           vf_id vf = new_vf_id w \<and> vf_status vf = failed \<and> errorMessage vf = Some m \<and> m \<noteq> []"
    by blast
  with used show ?thesis by blast
next
  assume "job_commit_failed w w'"
  then obtain vf vf' m where m: "m \<noteq> []" and vf: "vf_id vf' = new_vf_id w"
    and files: "voiceFiles w' = voiceFiles w @ [vf'\<lparr>vf_status := failed, errorMessage := Some m\<rparr>]"
    and writes: "voiceFileWrites w' =
        voiceFileWrites w @ [vf, vf', vf'\<lparr>vf_status := failed, errorMessage := Some m\<rparr>]"
    and used: "\<forall>u p. charactersUsedOf w' u p = charactersUsedOf w u p"
    unfolding job_commit_failed_def by blast
  let ?vf = "vf'\<lparr>vf_status := failed, errorMessage := Some m\<rparr>"
  have "voiceFiles w' = voiceFiles w @ [?vf] \<and> last (voiceFileWrites w') = ?vf \<and>
      vf_id ?vf = new_vf_id w \<and> vf_status ?vf = failed \<and> errorMessage ?vf = Some m \<and> m \<noteq> []"
    using m vf files writes by simp
  then have "\<exists>vf m. voiceFiles w' = voiceFiles w @ [vf] \<and> last (voiceFileWrites w') = vf \<and>
           vf_id vf = new_vf_id w \<and> vf_status vf = failed \<and> errorMessage vf = Some m \<and> m \<noteq> []"
    by blast
  with used show ?thesis by blast
qed

text \<open>What holds on every path: a run that writes a voice file leaves it stored, and last
  written, in a terminal status.\<close>

lemma conversion_ends_terminal:
  assumes run: "convert_route e req w = (r, w')"
    and wrote: "voiceFileWrites w' \<noteq> voiceFileWrites w"
  shows "\<exists>vf. voiceFiles w' = voiceFiles w @ [vf] \<and> last (voiceFileWrites w') = vf \<and>
           vf_id vf = new_vf_id w \<and> (vf_status vf = completed \<or> vf_status vf = failed)"
proof -
  from convert_route_cases [OF run] wrote
  consider "job_failed w w' \<or> job_commit_failed w w'" | "job_completed e req w w'"
    by (auto simp: rejected_def)
  then show ?thesis
  proof cases
    case 1
    from failed_job_stored [OF 1] show ?thesis by blast
  next
    case 2
    then obtain vf vf' where "vf_id vf' = new_vf_id w" "vf_status vf' = completed"
      "voiceFiles w' = voiceFiles w @ [vf']" "voiceFileWrites w' = voiceFileWrites w @ [vf, vf']"
      unfolding job_completed_def by blast
    then have "voiceFiles w' = voiceFiles w @ [vf'] \<and> last (voiceFileWrites w') = vf' \<and>
        vf_id vf' = new_vf_id w \<and> (vf_status vf' = completed \<or> vf_status vf' = failed)"
      by simp
    then show ?thesis by blast
  qed
qed

lemma job_completed_provider_ok:
  "job_completed e req w w' \<Longrightarrow>
   pollyRequests w' \<noteq> pollyRequests w \<and>
   (\<exists>resp. synthesizeSpeech e (last (pollyRequests w')) = Inr resp) \<and>
   (\<exists>key. uploadAudioFile e (user_id req) (job_filename e req) = Inr key)"
  unfolding job_completed_def by force

lemma getDownloadUrl_cases:
  assumes run: "getDownloadUrl e uid fid w = (r, w')"
    and ids: "distinct (map vf_id (voiceFiles w))"
  shows "length (voiceFiles w') = length (voiceFiles w) \<and>
     map vf_id (voiceFiles w') = map vf_id (voiceFiles w) \<and>
     (\<forall>i<length (voiceFiles w).
        voiceFiles w' ! i = voiceFiles w ! i
        \<or> (vf_status (voiceFiles w ! i) = completed \<and>
            voiceFiles w' ! i = (voiceFiles w ! i)
              \<lparr>downloadCount := downloadCount (voiceFiles w ! i) + 1,
               lastDownloadedAt := Some (now e)\<rparr>))"
proof (cases "find (\<lambda>f. vf_id f = fid \<and> vf_user f = uid \<and> vf_status f = completed) (voiceFiles w)")
  case None
  with run have "w' = w" by (simp add: getDownloadUrl_def)
  then show ?thesis by simp
next
  case (Some vf)
  then have mem: "vf \<in> set (voiceFiles w)" and st: "vf_status vf = completed"
    by (auto simp: find_Some_iff)
  show ?thesis
  proof (cases "generatePresignedDownloadUrl e (s3Key vf) (filename vf)")
    case (Inl m)
    with run Some have "w' = w" by (simp add: getDownloadUrl_def)
    then show ?thesis by simp
  next
    case (Inr url)
    let ?vf = "vf\<lparr>downloadCount := downloadCount vf + 1, lastDownloadedAt := Some (now e)\<rparr>"
    from run Some Inr have w': "w' = save_voiceFile ?vf w" by (simp add: getDownloadUrl_def)
    have files: "voiceFiles w' = map (\<lambda>f. if vf_id f = vf_id vf then ?vf else f) (voiceFiles w)"
      using mem by (simp add: w' save_voiceFile_def)
    have same: "voiceFiles w ! i = vf" if "i < length (voiceFiles w)" "vf_id (voiceFiles w ! i) = vf_id vf" for i
    proof -
      from mem obtain j where j: "j < length (voiceFiles w)" "voiceFiles w ! j = vf"
        by (auto simp: in_set_conv_nth)
      have "map vf_id (voiceFiles w) ! i = map vf_id (voiceFiles w) ! j"
        using that j by simp
      moreover have "i < length (map vf_id (voiceFiles w))" "j < length (map vf_id (voiceFiles w))"
        using that j by simp_all
      ultimately have "i = j" using ids nth_eq_iff_index_eq by blast
      with j show ?thesis by simp
    qed
    have "map vf_id (voiceFiles w') = map vf_id (voiceFiles w)"
      unfolding files by (induction "voiceFiles w") auto
    then show ?thesis using files st same by auto
  qed
qed

section \<open>The scenarios, evaluated\<close>

text \<open>
  The runs of the route on the concrete scenarios, evaluated once: with quota available the
  request reaches the controller and succeeds, or fails when the provider or the storage is
  down; with one job in processing under a limit of one it is denied; with 4990 of 5000
  characters used a text of 20 characters is over quota.
\<close>

lemmas demo_defs = demo_world_def demo_env_def demo_request_def demo_voice_def demo_audio_def
  demo_job_def unsubscribed_world_def

lemma demo_gate:
  "checkSubscription (demo_env sy pu) ''u1'' (demo_world active None lim conc used fs) =
     (Next (''s1'', \<lparr>status = active, endDate = None, plan_ref = Some ''p1''\<rparr>,
        Some \<lparr>plan_name = ''Basic'', features = \<lparr>charactersPerMonth = lim, maxConcurrentRequests = conc\<rparr>\<rparr>),
      demo_world active None lim conc used fs)"
  by (simp add: checkSubscription_def populate_subscription_def populate_plan_def demo_defs)

lemma demo_used: "charactersUsedOf (demo_world st ed lim conc used fs) ''u1'' (2026, 11) = used"
  by (simp add: charactersUsedOf_def demo_world_def zero_usage_def)

lemma demo_env_simps:
  "currentPeriod (demo_env sy pu) = (2026, 11)" "now (demo_env sy pu) = 1000"
  "ttsLimiter (demo_env sy pu) = None" "synthesizeSpeech (demo_env sy pu) p = sy"
  "putObject (demo_env sy pu) k = pu"
  by (simp_all add: demo_env_def)

lemma demo_request_simps:
  "user_id (demo_request t) = ''u1''" "body_text (body (demo_request t)) = Some t"
  "body_outputFormat (body (demo_request t)) = None"
  by (simp_all add: demo_request_def)

lemma demo_quota_ok:
  "used + length t \<le> lim \<Longrightarrow> t \<noteq> [] \<Longrightarrow>
   checkCharacterLimit (demo_env sy pu) (demo_request t) ''s1'' (demo_world active None lim conc used fs) =
     (Next (fst (getOrCreateCurrentUsage (demo_env sy pu) ''u1'' ''s1'' (demo_world active None lim conc used fs)),
        length t), demo_world active None lim conc used fs)"
  by (simp add: checkCharacterLimit_def getOrCreateCurrentUsage_def hasQuota_def plan_limit_def
      populate_plan_def demo_defs zero_usage_def)

lemma demo_quota_ok':
  "checkCharacterLimit (demo_env sy pu) (demo_request ''Hello world'') ''s1'' (demo_world active None 50000 None 0 []) =
     (Next (fst (getOrCreateCurrentUsage (demo_env sy pu) ''u1'' ''s1'' (demo_world active None 50000 None 0 [])),
        length ''Hello world''), demo_world active None 50000 None 0 [])"
  by (rule demo_quota_ok) simp_all

lemma demo_route_is_controller:
  "convert_route (demo_env sy pu) (demo_request ''Hello world'') (demo_world active None 50000 None 0 []) =
   convertTextToSpeech (demo_env sy pu) (demo_request ''Hello world'') (demo_world active None 50000 None 0 [])"
proof -
  let ?w = "demo_world active None 50000 None 0 []"
  have cc: "checkConcurrentRequests (demo_request ''Hello world'')
      (Some \<lparr>plan_name = ''Basic'', features = \<lparr>charactersPerMonth = 50000, maxConcurrentRequests = None\<rparr>\<rparr>) ?w
      = Next ()"
    by (simp add: checkConcurrentRequests_def processingFiles_def maxConcurrent_def demo_defs)
  have val: "ttsValidation (body (demo_request ''Hello world''))"
    by (simp add: ttsValidation_def demo_request_def)
  show ?thesis
    by (simp only: convert_route_def demo_gate demo_request_simps demo_quota_ok' cc prod.case outcome.case
        demo_env_simps option.case val not_True_eq_False if_False)
qed

lemma demo_commit_down_route:
  "convert_route demo_env_commit_down (demo_request ''Hello world'')
     (demo_world active None 50000 None 0 []) =
   convertTextToSpeech demo_env_commit_down (demo_request ''Hello world'')
     (demo_world active None 50000 None 0 [])"
proof -
  let ?e = demo_env_commit_down
  let ?w = "demo_world active None 50000 None 0 []"
  let ?pl = "\<lparr>plan_name = ''Basic'', features = \<lparr>charactersPerMonth = 50000, maxConcurrentRequests = None\<rparr>\<rparr>"
  have gate: "checkSubscription ?e ''u1'' ?w =
     (Next (''s1'', \<lparr>status = active, endDate = None, plan_ref = Some ''p1''\<rparr>, Some ?pl), ?w)"
    by (simp add: checkSubscription_def populate_subscription_def populate_plan_def demo_defs)
  have cl: "checkCharacterLimit ?e (demo_request ''Hello world'') ''s1'' ?w =
     (Next (fst (getOrCreateCurrentUsage ?e ''u1'' ''s1'' ?w), length ''Hello world''), ?w)"
    by (simp add: checkCharacterLimit_def getOrCreateCurrentUsage_def hasQuota_def plan_limit_def
        populate_plan_def demo_defs demo_env_commit_down_def zero_usage_def)
  have cc: "checkConcurrentRequests (demo_request ''Hello world'') (Some ?pl) ?w = Next ()"
    by (simp add: checkConcurrentRequests_def processingFiles_def maxConcurrent_def demo_defs)
  have val: "ttsValidation (body (demo_request ''Hello world''))"
    by (simp add: ttsValidation_def demo_request_def)
  have lim: "ttsLimiter ?e = None" by (simp add: demo_env_commit_down_def)
  show ?thesis
    by (simp only: convert_route_def gate demo_request_simps cl cc prod.case outcome.case
        lim option.case val not_True_eq_False if_False)
qed

lemmas controller_defs = convertTextToSpeech_def run_conversion_def synthesize_and_store_def synthesizeText_def
        uploadAudioFile_def generatePresignedDownloadUrl_def getVoiceById_def getAvailableVoices_def
        getOrCreateCurrentUsage_def hasQuota_def addUsage_def populate_subscription_def
        plan_limit_def populate_plan_def supportedFormats_def supportedEngines_def zero_usage_def
        job_filename_def

lemma demo_success:
  "reply_status (fst (convert_route (demo_env (Inr (demo_audio n)) True) (demo_request ''Hello world'')
      (demo_world active None 50000 None 0 []))) = 200"
proof -
  let ?e = "demo_env (Inr (demo_audio n)) True"
  let ?w = "demo_world active None 50000 None 0 []"
  have cc: "checkConcurrentRequests (demo_request ''Hello world'')
      (Some \<lparr>plan_name = ''Basic'', features = \<lparr>charactersPerMonth = 50000, maxConcurrentRequests = None\<rparr>\<rparr>) ?w
      = Next ()"
    by (simp add: checkConcurrentRequests_def processingFiles_def maxConcurrent_def demo_defs)
  have val: "ttsValidation (body (demo_request ''Hello world''))"
    by (simp add: ttsValidation_def demo_request_def)
  have ctl: "reply_status (fst (convertTextToSpeech ?e (demo_request ''Hello world'') ?w)) = 200"
    by (simp add: convertTextToSpeech_def run_conversion_def synthesize_and_store_def synthesizeText_def
        uploadAudioFile_def generatePresignedDownloadUrl_def getVoiceById_def getAvailableVoices_def
        getOrCreateCurrentUsage_def hasQuota_def addUsage_def populate_subscription_def
        plan_limit_def populate_plan_def supportedFormats_def supportedEngines_def zero_usage_def
        job_filename_def demo_defs Let_def)
  have cl: "checkCharacterLimit ?e (demo_request ''Hello world'') ''s1'' ?w =
     (Next (fst (getOrCreateCurrentUsage ?e ''u1'' ''s1'' ?w), length ''Hello world''), ?w)"
    by (rule demo_quota_ok) simp_all
  show ?thesis
    by (simp only: convert_route_def demo_gate demo_request_simps cl cc prod.case outcome.case
        demo_env_simps option.case val not_True_eq_False if_False ctl)
qed

lemma demo_success_completed:
  "job_completed (demo_env (Inr (demo_audio n)) True) (demo_request ''Hello world'')
     (demo_world active None 50000 None 0 [])
     (snd (convert_route (demo_env (Inr (demo_audio n)) True) (demo_request ''Hello world'')
        (demo_world active None 50000 None 0 [])))"
  using convert_route_cases [of "demo_env (Inr (demo_audio n)) True" "demo_request ''Hello world''"
      "demo_world active None 50000 None 0 []"
      "fst (convert_route (demo_env (Inr (demo_audio n)) True) (demo_request ''Hello world'')
        (demo_world active None 50000 None 0 []))"
      "snd (convert_route (demo_env (Inr (demo_audio n)) True) (demo_request ''Hello world'')
        (demo_world active None 50000 None 0 []))"] demo_success [of n]
  by (auto simp: rejected_def conversion_failed_def)

lemma demo_concurrent_denied:
  "convert_route (demo_env sy pu) (demo_request ''Hello world'')
     (demo_world active None 50000 (Some 1) 0 [demo_job 1 processing]) =
   (Json 429 False
      ''Maximum concurrent requests reached. Please wait for current requests to complete.''
      (Some CONCURRENT_LIMIT_EXCEEDED) (ConcurrencyData 1 1),
    demo_world active None 50000 (Some 1) 0 [demo_job 1 processing])"
proof -
  let ?w = "demo_world active None 50000 (Some 1) 0 [demo_job 1 processing]"
  have cl: "checkCharacterLimit (demo_env sy pu) (demo_request ''Hello world'') ''s1'' ?w =
      (Next (fst (getOrCreateCurrentUsage (demo_env sy pu) ''u1'' ''s1'' ?w), 11), ?w)"
    by (simp add: checkCharacterLimit_def getOrCreateCurrentUsage_def hasQuota_def plan_limit_def
        populate_plan_def demo_defs zero_usage_def)
  have cc: "checkConcurrentRequests (demo_request ''Hello world'')
      (Some \<lparr>plan_name = ''Basic'', features = \<lparr>charactersPerMonth = 50000, maxConcurrentRequests = Some 1\<rparr>\<rparr>) ?w =
      Respond (Json 429 False
      ''Maximum concurrent requests reached. Please wait for current requests to complete.''
      (Some CONCURRENT_LIMIT_EXCEEDED) (ConcurrencyData 1 1))"
    by (simp add: checkConcurrentRequests_def processingFiles_def maxConcurrent_def demo_defs)
  show ?thesis
    by (simp only: convert_route_def demo_gate demo_request_simps cl cc prod.case outcome.case)
qed

lemma demo_over_quota_reply:
  "convert_route (demo_env sy pu) (demo_request ''Twenty characters...'')
     (demo_world active None 5000 None 4990 []) =
   (Json 403 False ''Character limit exceeded for this month'' (Some QUOTA_EXCEEDED)
      (QuotaData 4990 5000 20 10), demo_world active None 5000 None 4990 [])"
proof -
  have cl: "checkCharacterLimit (demo_env sy pu) (demo_request ''Twenty characters...'') ''s1''
      (demo_world active None 5000 None 4990 []) =
    (Respond (Json 403 False ''Character limit exceeded for this month'' (Some QUOTA_EXCEEDED)
      (QuotaData 4990 5000 20 10)), demo_world active None 5000 None 4990 [])"
    by (simp add: checkCharacterLimit_def getOrCreateCurrentUsage_def hasQuota_def plan_limit_def
        populate_plan_def getRemainingCharacters_def demo_defs zero_usage_def)
  show ?thesis
    by (simp only: convert_route_def demo_gate demo_request_simps cl prod.case outcome.case)
qed

lemma demo_provider_down:
  "reply_status (fst (convert_route (demo_env (Inl ''Throttled'') True) (demo_request ''Hello world'')
      (demo_world active None 50000 None 0 []))) = 500
   \<and> length (pollyRequests (snd (convert_route (demo_env (Inl ''Throttled'') True) (demo_request ''Hello world'')
      (demo_world active None 50000 None 0 [])))) = 1
   \<and> length (voiceFileWrites (snd (convert_route (demo_env (Inl ''Throttled'') True) (demo_request ''Hello world'')
      (demo_world active None 50000 None 0 [])))) = 2"
  unfolding demo_route_is_controller
  by (simp add: controller_defs demo_defs Let_def conversion_failed_def save_voiceFile_def)

lemma demo_storage_down:
  "reply_status (fst (convert_route (demo_env (Inr (demo_audio 11)) False) (demo_request ''Hello world'')
      (demo_world active None 50000 None 0 []))) = 500
   \<and> length (pollyRequests (snd (convert_route (demo_env (Inr (demo_audio 11)) False) (demo_request ''Hello world'')
      (demo_world active None 50000 None 0 [])))) = 1"
  unfolding demo_route_is_controller
  by (simp add: controller_defs demo_defs Let_def conversion_failed_def save_voiceFile_def)

section \<open>Claims\<close>

subsection \<open>C1: what a successful conversion charges\<close>

text \<open>
  C1, as amended. After every successful conversion (status 200) the user's
  \<open>charactersUsed\<close> of the current period is the value before plus the length of the
  submitted text.
\<close>

theorem usage_commit_charges_text_length:
  assumes run: "convert_route e req w = (r, w')" and ok: "reply_status r = 200"
  shows "\<exists>t. body_text (body req) = Some t \<and>
     charactersUsedOf w' (user_id req) (currentPeriod e) =
       charactersUsedOf w (user_id req) (currentPeriod e) + length t"
proof -
  from convert_route_cases [OF run] ok have "job_completed e req w w'"
    by (auto simp: rejected_def conversion_failed_def)
  then obtain t where t: "body_text (body req) = Some t"
    and used: "\<forall>u p. charactersUsedOf w' u p =
       (if (u, p) = (user_id req, currentPeriod e) then charactersUsedOf w u p + length t
        else charactersUsedOf w u p)"
    unfolding job_completed_def by blast
  from used [rule_format, of "user_id req" "currentPeriod e"] t show ?thesis by simp
qed

text \<open>
  Counterexample to C1 as stated: the text ``Hello world'' (11 characters), for which the
  provider reports 17 billed characters. The conversion succeeds and \<open>charactersUsed\<close>
  goes from 0 to 11, not to 17.
\<close>

theorem usage_commit_ignores_billed_characters:
  "reply_status (fst (convert_route (demo_env (Inr (demo_audio 17)) True) (demo_request ''Hello world'')
      (demo_world active None 50000 None 0 []))) = 200
   \<and> synthesizeSpeech (demo_env (Inr (demo_audio 17)) True)
        (last (pollyRequests (snd (convert_route (demo_env (Inr (demo_audio 17)) True)
           (demo_request ''Hello world'') (demo_world active None 50000 None 0 [])))))
      = Inr (demo_audio 17)
   \<and> RequestCharacters (demo_audio 17) = 17
   \<and> charactersUsedOf (demo_world active None 50000 None 0 []) ''u1'' (2026, 11) = 0
   \<and> charactersUsedOf (snd (convert_route (demo_env (Inr (demo_audio 17)) True) (demo_request ''Hello world'')
        (demo_world active None 50000 None 0 []))) ''u1'' (2026, 11) = 11
   \<and> charactersUsedOf (snd (convert_route (demo_env (Inr (demo_audio 17)) True) (demo_request ''Hello world'')
        (demo_world active None 50000 None 0 []))) ''u1'' (2026, 11)
      \<noteq> charactersUsedOf (demo_world active None 50000 None 0 []) ''u1'' (2026, 11)
          + RequestCharacters (demo_audio 17)"
proof -
  let ?e = "demo_env (Inr (demo_audio 17)) True"
  let ?req = "demo_request ''Hello world''"
  let ?w = "demo_world active None 50000 None 0 []"
  have used: "charactersUsedOf (snd (convert_route ?e ?req ?w)) ''u1'' (2026, 11) = 11"
    using demo_success_completed [of 17] unfolding job_completed_def
    by (auto simp: demo_request_simps demo_env_simps demo_used)
  show ?thesis
    using demo_success [of 17] used by (simp add: demo_env_simps demo_used demo_audio_def)
qed

text \<open>Witness of C1 as amended, on the same conversion.\<close>

theorem usage_commit_charges_text_length_witness:
  "reply_status (fst (convert_route (demo_env (Inr (demo_audio 17)) True) (demo_request ''Hello world'')
      (demo_world active None 50000 None 0 []))) = 200
   \<and> (\<exists>t. body_text (body (demo_request ''Hello world'')) = Some t \<and>
        charactersUsedOf (snd (convert_route (demo_env (Inr (demo_audio 17)) True) (demo_request ''Hello world'')
          (demo_world active None 50000 None 0 []))) ''u1'' (2026, 11) =
        charactersUsedOf (demo_world active None 50000 None 0 []) ''u1'' (2026, 11) + length t)"
  using usage_commit_charges_text_length [of "demo_env (Inr (demo_audio 17)) True" "demo_request ''Hello world''"
      "demo_world active None 50000 None 0 []"
      "fst (convert_route (demo_env (Inr (demo_audio 17)) True) (demo_request ''Hello world'')
        (demo_world active None 50000 None 0 []))"
      "snd (convert_route (demo_env (Inr (demo_audio 17)) True) (demo_request ''Hello world'')
        (demo_world active None 50000 None 0 []))"] demo_success [of 17]
  by (simp add: demo_request_simps demo_env_simps)

subsection \<open>C3: a conversion that fails after the job was created\<close>

text \<open>
  C3. For every conversion request that has created its voice file and does not end in the
  success response, and in particular for every request that reached the synthesis provider
  and whose provider call or upload failed: no \<open>charactersUsed\<close> counter has changed, and
  the voice file of the request is stored, and was last written, with status \<open>failed\<close>
  and a non-empty \<open>errorMessage\<close>.
\<close>

theorem failed_conversion_keeps_usage:
  assumes run: "convert_route e req w = (r, w')"
    and fails: "(voiceFileWrites w' \<noteq> voiceFileWrites w \<and> reply_status r \<noteq> 200)
       \<or> (pollyRequests w' \<noteq> pollyRequests w \<and>
           ((\<exists>m. synthesizeSpeech e (last (pollyRequests w')) = Inl m)
            \<or> (\<exists>m. uploadAudioFile e (user_id req) (job_filename e req) = Inl m)))"
  shows "(\<forall>u p. charactersUsedOf w' u p = charactersUsedOf w u p)
     \<and> (\<exists>vf m. voiceFiles w' = voiceFiles w @ [vf] \<and> last (voiceFileWrites w') = vf \<and>
           vf_id vf = new_vf_id w \<and> vf_status vf = failed \<and>
           errorMessage vf = Some m \<and> m \<noteq> [])"
proof -
  have not_rej: "\<not> rejected w r w'"
    using fails by (auto simp: rejected_def)
  have not_done: "\<not> (reply_status r = 200 \<and> job_completed e req w w')"
    using fails job_completed_provider_ok [of e req w w'] by auto
  from convert_route_cases [OF run] not_rej not_done
  have "job_failed w w' \<or> job_commit_failed w w'" by blast
  then show ?thesis by (rule failed_job_stored)
qed

text \<open>
  Witness of C3: a provider that answers every request with an error, and a storage that
  refuses every upload. In both the counter stays at 0 and the one stored voice file is
  failed with an error message.
\<close>

theorem failed_conversion_keeps_usage_witness:
  "pollyRequests (snd (convert_route (demo_env (Inl ''Throttled'') True) (demo_request ''Hello world'')
        (demo_world active None 50000 None 0 []))) \<noteq> pollyRequests (demo_world active None 50000 None 0 [])
   \<and> synthesizeSpeech (demo_env (Inl ''Throttled'') True)
        (last (pollyRequests (snd (convert_route (demo_env (Inl ''Throttled'') True)
           (demo_request ''Hello world'') (demo_world active None 50000 None 0 []))))) = Inl ''Throttled''
   \<and> charactersUsedOf (snd (convert_route (demo_env (Inl ''Throttled'') True) (demo_request ''Hello world'')
        (demo_world active None 50000 None 0 []))) ''u1'' (2026, 11) = 0
   \<and> (\<exists>vf m. voiceFiles (snd (convert_route (demo_env (Inl ''Throttled'') True) (demo_request ''Hello world'')
        (demo_world active None 50000 None 0 []))) = [vf] \<and>
        vf_status vf = failed \<and> errorMessage vf = Some m \<and> m \<noteq> [])
   \<and> uploadAudioFile (demo_env (Inr (demo_audio 11)) False) ''u1''
        (job_filename (demo_env (Inr (demo_audio 11)) False) (demo_request ''Hello world''))
        = Inl ''Failed to upload audio file''
   \<and> charactersUsedOf (snd (convert_route (demo_env (Inr (demo_audio 11)) False) (demo_request ''Hello world'')
        (demo_world active None 50000 None 0 []))) ''u1'' (2026, 11) = 0
   \<and> (\<exists>vf m. voiceFiles (snd (convert_route (demo_env (Inr (demo_audio 11)) False) (demo_request ''Hello world'')
        (demo_world active None 50000 None 0 []))) = [vf] \<and>
        vf_status vf = failed \<and> errorMessage vf = Some m \<and> m \<noteq> [])"
proof -
  let ?req = "demo_request ''Hello world''"
  let ?w = "demo_world active None 50000 None 0 []"
  let ?e1 = "demo_env (Inl ''Throttled'') True"
  let ?e2 = "demo_env (Inr (demo_audio 11)) False"
  have w0: "pollyRequests ?w = []" "voiceFiles ?w = []" by (simp_all add: demo_world_def)
  have called1: "pollyRequests (snd (convert_route ?e1 ?req ?w)) \<noteq> pollyRequests ?w"
    using demo_provider_down by (auto simp: w0)
  have synth1: "synthesizeSpeech ?e1 (last (pollyRequests (snd (convert_route ?e1 ?req ?w)))) = Inl ''Throttled''"
    by (simp add: demo_env_simps)
  have called2: "pollyRequests (snd (convert_route ?e2 ?req ?w)) \<noteq> pollyRequests ?w"
    using demo_storage_down by (auto simp: w0)
  have upload2: "uploadAudioFile ?e2 ''u1'' (job_filename ?e2 ?req) = Inl ''Failed to upload audio file''"
    by (simp add: uploadAudioFile_def demo_env_simps)
  have 1: "(\<forall>u p. charactersUsedOf (snd (convert_route ?e1 ?req ?w)) u p = charactersUsedOf ?w u p)
     \<and> (\<exists>vf m. voiceFiles (snd (convert_route ?e1 ?req ?w)) = voiceFiles ?w @ [vf] \<and>
           last (voiceFileWrites (snd (convert_route ?e1 ?req ?w))) = vf \<and>
           vf_id vf = new_vf_id ?w \<and> vf_status vf = failed \<and> errorMessage vf = Some m \<and> m \<noteq> [])"
    by (rule failed_conversion_keeps_usage [of ?e1 ?req ?w "fst (convert_route ?e1 ?req ?w)"])
      (use called1 synth1 in simp_all)
  have 2: "(\<forall>u p. charactersUsedOf (snd (convert_route ?e2 ?req ?w)) u p = charactersUsedOf ?w u p)
     \<and> (\<exists>vf m. voiceFiles (snd (convert_route ?e2 ?req ?w)) = voiceFiles ?w @ [vf] \<and>
           last (voiceFileWrites (snd (convert_route ?e2 ?req ?w))) = vf \<and>
           vf_id vf = new_vf_id ?w \<and> vf_status vf = failed \<and> errorMessage vf = Some m \<and> m \<noteq> [])"
    by (rule failed_conversion_keeps_usage [of ?e2 ?req ?w "fst (convert_route ?e2 ?req ?w)"])
      (use called2 upload2 in \<open>simp_all add: demo_request_simps\<close>)
  from 1 have u1: "charactersUsedOf (snd (convert_route ?e1 ?req ?w)) ''u1'' (2026, 11) = 0"
    by (simp add: demo_used)
  from 2 have u2: "charactersUsedOf (snd (convert_route ?e2 ?req ?w)) ''u1'' (2026, 11) = 0"
    by (simp add: demo_used)
  from 1 have j1: "\<exists>vf m. voiceFiles (snd (convert_route ?e1 ?req ?w)) = [vf] \<and>
        vf_status vf = failed \<and> errorMessage vf = Some m \<and> m \<noteq> []"
    unfolding w0 by auto
  from 2 have j2: "\<exists>vf m. voiceFiles (snd (convert_route ?e2 ?req ?w)) = [vf] \<and>
        vf_status vf = failed \<and> errorMessage vf = Some m \<and> m \<noteq> []"
    unfolding w0 by auto
  from called1 synth1 u1 j1 upload2 u2 j2 show ?thesis by blast
qed

subsection \<open>C4: the life cycle of a voice file\<close>

text \<open>
  C4, at the failing input. The user is subscribed with quota available, the provider
  synthesizes ``Hello world'', the upload and the signing succeed, and the store rejects the
  usage commit. The request answers 500 and has written its one voice file three times: as
  \<open>processing\<close>, as \<open>completed\<close> and then as \<open>failed\<close>. The file that was persisted as
  completed has changed its status and its error message.
\<close>

theorem completed_job_rewritten_as_failed:
  "reply_status (fst (convert_route demo_env_commit_down (demo_request ''Hello world'')
      (demo_world active None 50000 None 0 []))) = 500
   \<and> map vf_status (voiceFileWrites (snd (convert_route demo_env_commit_down
        (demo_request ''Hello world'') (demo_world active None 50000 None 0 []))))
      = [processing, completed, failed]
   \<and> map vf_id (voiceFileWrites (snd (convert_route demo_env_commit_down
        (demo_request ''Hello world'') (demo_world active None 50000 None 0 []))))
      = [1, 1, 1]
   \<and> map errorMessage (voiceFileWrites (snd (convert_route demo_env_commit_down
        (demo_request ''Hello world'') (demo_world active None 50000 None 0 []))))
      = [None, None, Some ''ECONNRESET'']
   \<and> map vf_status (voiceFiles (snd (convert_route demo_env_commit_down
        (demo_request ''Hello world'') (demo_world active None 50000 None 0 []))))
      = [failed]
   \<and> length (pollyRequests (snd (convert_route demo_env_commit_down
        (demo_request ''Hello world'') (demo_world active None 50000 None 0 [])))) = 1"
  unfolding demo_commit_down_route
  by (simp add: controller_defs demo_defs demo_env_commit_down_def Let_def conversion_failed_def
      save_voiceFile_def new_vf_id_def)

subsection \<open>C5: a user without subscription\<close>

text \<open>
  C5. For a user who has no subscription, the conversion route answers 403 with the code
  \<open>NO_SUBSCRIPTION\<close> and returns the store unchanged: no voice file, no usage record, no
  provider call.
\<close>

theorem no_subscription_no_job:
  assumes "users w (user_id req) = Some u" and "populate_subscription w u = None"
  shows "convert_route e req w =
     (Json 403 False ''No subscription found. Please subscribe to a plan to use this feature.''
        (Some NO_SUBSCRIPTION) NoData, w)"
  using assms by (simp add: convert_route_def checkSubscription_def)

text \<open>Witness of C5: the conversion route in a store whose only user has no subscription.\<close>

theorem no_subscription_no_job_witness:
  "users unsubscribed_world (user_id (demo_request ''Hello'')) = Some \<lparr>subscription_ref = None\<rparr> \<and>
   populate_subscription unsubscribed_world \<lparr>subscription_ref = None\<rparr> = None \<and>
   convert_route (demo_env (Inr (demo_audio 5)) True) (demo_request ''Hello'') unsubscribed_world =
     (Json 403 False ''No subscription found. Please subscribe to a plan to use this feature.''
        (Some NO_SUBSCRIPTION) NoData, unsubscribed_world)"
proof -
  have h1: "users unsubscribed_world (user_id (demo_request ''Hello'')) = Some \<lparr>subscription_ref = None\<rparr>"
    by (simp add: demo_defs)
  have h2: "populate_subscription unsubscribed_world \<lparr>subscription_ref = None\<rparr> = None"
    by (simp add: populate_subscription_def)
  from no_subscription_no_job [OF h1 h2] h1 h2 show ?thesis by blast
qed

subsection \<open>C6: the quota pre-check\<close>

text \<open>
  C6. For a request that has passed the entitlement check on a subscription with plan \<open>pl\<close>
  and carries a non-empty text \<open>t\<close>: the quota middleware lets it through exactly when
  \<open>charactersUsed + length t \<le> charactersPerMonth\<close> of the plan, and when the text would
  exceed the quota the route answers with the code \<open>QUOTA_EXCEEDED\<close> without having sent
  anything to the synthesis provider or written any voice file.
\<close>

theorem quota_precheck:
  assumes gate: "checkSubscription e (user_id req) w = (Next (sid, s, Some pl), w1)"
    and nonempty: "body_text (body req) = Some t" "t \<noteq> []"
  shows "((\<exists>x w2. checkCharacterLimit e req sid w1 = (Next x, w2)) \<longleftrightarrow>
            charactersUsedOf w (user_id req) (currentPeriod e) + length t
              \<le> charactersPerMonth (features pl))
     \<and> (charactersPerMonth (features pl)
            < charactersUsedOf w (user_id req) (currentPeriod e) + length t \<longrightarrow>
          reply_code (fst (convert_route e req w)) = Some QUOTA_EXCEEDED \<and>
          pollyRequests (snd (convert_route e req w)) = pollyRequests w \<and>
          voiceFileWrites (snd (convert_route e req w)) = voiceFileWrites w)"
proof -
  from checkSubscription_Next [OF gate] have w1: "w1 = w" and s: "subscriptions w sid = Some s"
    and pl: "populate_plan w s = Some pl" by simp_all
  have lim: "plan_limit w sid = charactersPerMonth (features pl)" by (rule plan_limit_of [OF s pl])
  have iff: "(\<exists>x w2. checkCharacterLimit e req sid w1 = (Next x, w2)) \<longleftrightarrow>
      charactersUsedOf w (user_id req) (currentPeriod e) + length t \<le> charactersPerMonth (features pl)"
    using checkCharacterLimit_Next_iff [OF nonempty, of e sid w] lim w1 by simp
  have over: "reply_code (fst (convert_route e req w)) = Some QUOTA_EXCEEDED \<and>
      pollyRequests (snd (convert_route e req w)) = pollyRequests w \<and>
      voiceFileWrites (snd (convert_route e req w)) = voiceFileWrites w"
    if "charactersPerMonth (features pl) < charactersUsedOf w (user_id req) (currentPeriod e) + length t"
    using convert_route_over_quota [OF gate nonempty that] .
  from iff over show ?thesis by blast
qed

text \<open>
  Witness of C6: limit 5000, 4990 characters used, a text of 20 characters; the route answers
  \<open>QUOTA_EXCEEDED\<close>, reporting 10 characters remaining, and the provider log stays empty.
\<close>

theorem quota_precheck_witness:
  "checkSubscription (demo_env (Inr (demo_audio 20)) True) ''u1'' (demo_world active None 5000 None 4990 []) =
     (Next (''s1'', \<lparr>status = active, endDate = None, plan_ref = Some ''p1''\<rparr>,
        Some \<lparr>plan_name = ''Basic'', features = \<lparr>charactersPerMonth = 5000, maxConcurrentRequests = None\<rparr>\<rparr>),
      demo_world active None 5000 None 4990 []) \<and>
   body_text (body (demo_request ''Twenty characters...'')) = Some ''Twenty characters...'' \<and>
   (5000::nat) < 4990 + length ''Twenty characters...'' \<and>
   reply_code (fst (convert_route (demo_env (Inr (demo_audio 20)) True) (demo_request ''Twenty characters...'')
      (demo_world active None 5000 None 4990 []))) = Some QUOTA_EXCEEDED \<and>
   pollyRequests (snd (convert_route (demo_env (Inr (demo_audio 20)) True) (demo_request ''Twenty characters...'')
      (demo_world active None 5000 None 4990 []))) = [] \<and>
   fst (convert_route (demo_env (Inr (demo_audio 20)) True) (demo_request ''Twenty characters...'')
      (demo_world active None 5000 None 4990 [])) =
     Json 403 False ''Character limit exceeded for this month'' (Some QUOTA_EXCEEDED)
       (QuotaData 4990 5000 20 10)"
proof -
  let ?e = "demo_env (Inr (demo_audio 20)) True"
  let ?req = "demo_request ''Twenty characters...''"
  let ?w = "demo_world active None 5000 None 4990 []"
  let ?pl = "\<lparr>plan_name = ''Basic'', features = \<lparr>charactersPerMonth = 5000, maxConcurrentRequests = None\<rparr>\<rparr>"
  have gate: "checkSubscription ?e (user_id ?req) ?w =
     (Next (''s1'', \<lparr>status = active, endDate = None, plan_ref = Some ''p1''\<rparr>, Some ?pl), ?w)"
    by (simp add: demo_gate demo_request_simps)
  have nonempty: "body_text (body ?req) = Some ''Twenty characters...''" "''Twenty characters...'' \<noteq> []"
    by (simp_all add: demo_request_simps)
  have over: "charactersPerMonth (features ?pl)
      < charactersUsedOf ?w (user_id ?req) (currentPeriod ?e) + length ''Twenty characters...''"
    by (simp add: demo_used demo_env_simps demo_request_simps)
  have "pollyRequests ?w = []" by (simp add: demo_world_def)
  moreover have "fst (convert_route ?e ?req ?w) =
      Json 403 False ''Character limit exceeded for this month'' (Some QUOTA_EXCEEDED)
        (QuotaData 4990 5000 20 10)"
    by (simp only: demo_over_quota_reply fst_conv)
  ultimately show ?thesis
    using quota_precheck [OF gate nonempty] over gate nonempty
    by (simp add: demo_request_simps)
qed

subsection \<open>C7: the concurrency check and the job record\<close>

text \<open>
  C7, as amended. The concurrency check runs before the voice file is created: a request
  answered with \<open>CONCURRENT_LIMIT_EXCEEDED\<close> has written no voice file, and a request that
  has written one passed the entitlement check with a plan and found fewer processing files
  of the user than the plan allows.
\<close>

theorem concurrency_check_precedes_job:
  assumes run: "convert_route e req w = (r, w')"
  shows "(reply_code r = Some CONCURRENT_LIMIT_EXCEEDED \<longrightarrow>
            voiceFiles w' = voiceFiles w \<and> voiceFileWrites w' = voiceFileWrites w)
     \<and> (voiceFileWrites w' \<noteq> voiceFileWrites w \<longrightarrow>
          (\<exists>sid s pl. checkSubscription e (user_id req) w = (Next (sid, s, Some pl), w) \<and>
             processingFiles w (user_id req) < maxConcurrent pl))"
proof -
  from convert_route_cases [OF run]
  have "rejected w r w' \<or> (admitted e req w \<and> reply_code r = None)" by blast
  then show ?thesis by (auto simp: rejected_def admitted_def)
qed

text \<open>
  Counterexample to C7 as stated: with a limit of one concurrent request and one job of the
  user in processing, the request is denied for concurrency and the voice-file collection
  and its write log are what they were; no record of this request was persisted.
\<close>

theorem concurrency_denied_without_job:
  "reply_code (fst (convert_route (demo_env (Inr (demo_audio 11)) True) (demo_request ''Hello world'')
       (demo_world active None 50000 (Some 1) 0 [demo_job 1 processing]))) = Some CONCURRENT_LIMIT_EXCEEDED
   \<and> voiceFileWrites (snd (convert_route (demo_env (Inr (demo_audio 11)) True) (demo_request ''Hello world'')
       (demo_world active None 50000 (Some 1) 0 [demo_job 1 processing]))) = [demo_job 1 processing]
   \<and> voiceFiles (snd (convert_route (demo_env (Inr (demo_audio 11)) True) (demo_request ''Hello world'')
       (demo_world active None 50000 (Some 1) 0 [demo_job 1 processing]))) = [demo_job 1 processing]"
  by (simp only: demo_concurrent_denied fst_conv snd_conv reply_code.simps) (simp add: demo_world_def)

text \<open>
  Witness of C7 as amended: the denied request above for the first part, a successful
  conversion for the second.
\<close>

theorem concurrency_check_precedes_job_witness:
  "reply_code (fst (convert_route (demo_env (Inr (demo_audio 11)) True) (demo_request ''Hello world'')
       (demo_world active None 50000 (Some 1) 0 [demo_job 1 processing]))) = Some CONCURRENT_LIMIT_EXCEEDED
   \<and> voiceFiles (snd (convert_route (demo_env (Inr (demo_audio 11)) True) (demo_request ''Hello world'')
       (demo_world active None 50000 (Some 1) 0 [demo_job 1 processing]))) =
      voiceFiles (demo_world active None 50000 (Some 1) 0 [demo_job 1 processing])
   \<and> voiceFileWrites (snd (convert_route (demo_env (Inr (demo_audio 11)) True) (demo_request ''Hello world'')
        (demo_world active None 50000 None 0 []))) \<noteq> voiceFileWrites (demo_world active None 50000 None 0 [])
   \<and> (\<exists>sid s pl. checkSubscription (demo_env (Inr (demo_audio 11)) True) ''u1''
          (demo_world active None 50000 None 0 []) = (Next (sid, s, Some pl), demo_world active None 50000 None 0 []) \<and>
        processingFiles (demo_world active None 50000 None 0 []) ''u1'' < maxConcurrent pl)"
proof -
  let ?e = "demo_env (Inr (demo_audio 11)) True"
  let ?req = "demo_request ''Hello world''"
  let ?wc = "demo_world active None 50000 (Some 1) 0 [demo_job 1 processing]"
  let ?w = "demo_world active None 50000 None 0 []"
  have denied: "reply_code (fst (convert_route ?e ?req ?wc)) = Some CONCURRENT_LIMIT_EXCEEDED"
    by (simp only: demo_concurrent_denied fst_conv reply_code.simps)
  have 1: "voiceFiles (snd (convert_route ?e ?req ?wc)) = voiceFiles ?wc"
    using concurrency_check_precedes_job [of ?e ?req ?wc "fst (convert_route ?e ?req ?wc)"
        "snd (convert_route ?e ?req ?wc)"] denied by simp
  have grew: "voiceFileWrites (snd (convert_route ?e ?req ?w)) \<noteq> voiceFileWrites ?w"
    using demo_success_completed [of 11] by (rule job_completed_writes)
  have 2: "\<exists>sid s pl. checkSubscription ?e ''u1'' ?w = (Next (sid, s, Some pl), ?w) \<and>
        processingFiles ?w ''u1'' < maxConcurrent pl"
    using concurrency_check_precedes_job [of ?e ?req ?w "fst (convert_route ?e ?req ?w)"
        "snd (convert_route ?e ?req ?w)"] grew by (simp add: demo_request_simps)
  from denied 1 grew 2 show ?thesis by blast
qed

subsection \<open>C8: the concurrency admission\<close>

text \<open>
  C8, as amended. For a request that has passed the entitlement check with plan \<open>pl\<close> and
  the quota check, the route answers \<open>CONCURRENT_LIMIT_EXCEEDED\<close> exactly when the number
  of the user's processing voice files is at least the plan's \<open>maxConcurrentRequests\<close>,
  taken as 5 when the plan does not set it or sets it to 0.
\<close>

theorem concurrency_admission:
  assumes gate: "checkSubscription e (user_id req) w = (Next (sid, s, Some pl), w1)"
    and quota: "checkCharacterLimit e req sid w1 = (Next x, w2)"
  shows "reply_code (fst (convert_route e req w)) = Some CONCURRENT_LIMIT_EXCEEDED \<longleftrightarrow>
     (case maxConcurrentRequests (features pl) of
        None \<Rightarrow> 5
      | Some n \<Rightarrow> if n = 0 then 5 else n)
       \<le> processingFiles w (user_id req)"
  using convert_route_concurrency [OF gate quota] by (simp add: maxConcurrent_def)

text \<open>
  Counterexample to C8 as stated, in two scenarios with one job of the user in processing.
  With a limit of one concurrent request and a quota that is used up, the request fails with
  \<open>QUOTA_EXCEEDED\<close>, not with \<open>CONCURRENT_LIMIT_EXCEEDED\<close>: the outcome depends on the
  quota state. With the limit set to 0 and quota available, the count 1 is at least the
  plan's limit and yet the request is not denied for concurrency: the limit 0 counts as 5.
\<close>

theorem quota_checked_before_concurrency:
  "plans (demo_world active None 10 (Some 1) 10 [demo_job 1 processing]) ''p1'' =
     Some \<lparr>plan_name = ''Basic'', features = \<lparr>charactersPerMonth = 10, maxConcurrentRequests = Some 1\<rparr>\<rparr>
   \<and> processingFiles (demo_world active None 10 (Some 1) 10 [demo_job 1 processing]) ''u1'' = 1
   \<and> reply_code (fst (convert_route (demo_env (Inr (demo_audio 11)) True) (demo_request ''Hello world'')
        (demo_world active None 10 (Some 1) 10 [demo_job 1 processing]))) = Some QUOTA_EXCEEDED
   \<and> reply_code (fst (convert_route (demo_env (Inr (demo_audio 11)) True) (demo_request ''Hello world'')
        (demo_world active None 10 (Some 1) 10 [demo_job 1 processing]))) \<noteq> Some CONCURRENT_LIMIT_EXCEEDED
   \<and> plans (demo_world active None 50000 (Some 0) 0 [demo_job 1 processing]) ''p1'' =
     Some \<lparr>plan_name = ''Basic'', features = \<lparr>charactersPerMonth = 50000, maxConcurrentRequests = Some 0\<rparr>\<rparr>
   \<and> processingFiles (demo_world active None 50000 (Some 0) 0 [demo_job 1 processing]) ''u1'' = 1
   \<and> reply_code (fst (convert_route (demo_env (Inr (demo_audio 11)) True) (demo_request ''Hello world'')
        (demo_world active None 50000 (Some 0) 0 [demo_job 1 processing]))) \<noteq> Some CONCURRENT_LIMIT_EXCEEDED"
proof -
  let ?e = "demo_env (Inr (demo_audio 11)) True"
  let ?req = "demo_request ''Hello world''"
  let ?w = "demo_world active None 10 (Some 1) 10 [demo_job 1 processing]"
  let ?pl = "\<lparr>plan_name = ''Basic'', features = \<lparr>charactersPerMonth = 10, maxConcurrentRequests = Some 1\<rparr>\<rparr>"
  let ?wz = "demo_world active None 50000 (Some 0) 0 [demo_job 1 processing]"
  let ?plz = "\<lparr>plan_name = ''Basic'', features = \<lparr>charactersPerMonth = 50000, maxConcurrentRequests = Some 0\<rparr>\<rparr>"
  have gate: "checkSubscription ?e (user_id ?req) ?w =
     (Next (''s1'', \<lparr>status = active, endDate = None, plan_ref = Some ''p1''\<rparr>, Some ?pl), ?w)"
    by (simp only: demo_gate demo_request_simps)
  have nonempty: "body_text (body ?req) = Some ''Hello world''" "''Hello world'' \<noteq> []"
    by (simp_all add: demo_request_simps)
  have over: "charactersPerMonth (features ?pl)
      < charactersUsedOf ?w (user_id ?req) (currentPeriod ?e) + length ''Hello world''"
    by (simp add: demo_used demo_env_simps demo_request_simps)
  have q: "reply_code (fst (convert_route ?e ?req ?w)) = Some QUOTA_EXCEEDED"
    using convert_route_over_quota [OF gate nonempty over] by simp
  have p: "plans ?w ''p1'' = Some ?pl" by (simp add: demo_world_def)
  have n: "processingFiles ?w ''u1'' = 1" by (simp add: processingFiles_def demo_defs)
  have gate0: "checkSubscription ?e (user_id ?req) ?wz =
     (Next (''s1'', \<lparr>status = active, endDate = None, plan_ref = Some ''p1''\<rparr>, Some ?plz), ?wz)"
    by (simp only: demo_gate demo_request_simps)
  have quota0: "checkCharacterLimit ?e ?req ''s1'' ?wz =
     (Next (fst (getOrCreateCurrentUsage ?e ''u1'' ''s1'' ?wz), length ''Hello world''), ?wz)"
    by (rule demo_quota_ok) simp_all
  have p0: "plans ?wz ''p1'' = Some ?plz" by (simp add: demo_world_def)
  have n0: "processingFiles ?wz ''u1'' = 1" by (simp add: processingFiles_def demo_defs)
  have "maxConcurrent ?plz = 5" by (simp add: maxConcurrent_def)
  with convert_route_concurrency [OF gate0 quota0] n0
  have a0: "reply_code (fst (convert_route ?e ?req ?wz)) \<noteq> Some CONCURRENT_LIMIT_EXCEEDED"
    by (simp add: demo_request_simps)
  from p n q p0 n0 a0 show ?thesis by simp
qed

text \<open>
  Witness of C8 as amended: limit 1, one processing job, quota available; the request is
  denied for concurrency.
\<close>

theorem concurrency_admission_witness:
  "checkSubscription (demo_env (Inr (demo_audio 11)) True) ''u1''
       (demo_world active None 50000 (Some 1) 0 [demo_job 1 processing]) =
     (Next (''s1'', \<lparr>status = active, endDate = None, plan_ref = Some ''p1''\<rparr>,
        Some \<lparr>plan_name = ''Basic'', features = \<lparr>charactersPerMonth = 50000, maxConcurrentRequests = Some 1\<rparr>\<rparr>),
      demo_world active None 50000 (Some 1) 0 [demo_job 1 processing])
   \<and> (\<exists>x. checkCharacterLimit (demo_env (Inr (demo_audio 11)) True) (demo_request ''Hello world'') ''s1''
          (demo_world active None 50000 (Some 1) 0 [demo_job 1 processing]) =
        (Next x, demo_world active None 50000 (Some 1) 0 [demo_job 1 processing]))
   \<and> processingFiles (demo_world active None 50000 (Some 1) 0 [demo_job 1 processing]) ''u1'' = 1
   \<and> reply_code (fst (convert_route (demo_env (Inr (demo_audio 11)) True) (demo_request ''Hello world'')
        (demo_world active None 50000 (Some 1) 0 [demo_job 1 processing]))) = Some CONCURRENT_LIMIT_EXCEEDED"
proof -
  let ?e = "demo_env (Inr (demo_audio 11)) True"
  let ?req = "demo_request ''Hello world''"
  let ?w = "demo_world active None 50000 (Some 1) 0 [demo_job 1 processing]"
  let ?pl = "\<lparr>plan_name = ''Basic'', features = \<lparr>charactersPerMonth = 50000, maxConcurrentRequests = Some 1\<rparr>\<rparr>"
  have gate: "checkSubscription ?e (user_id ?req) ?w =
     (Next (''s1'', \<lparr>status = active, endDate = None, plan_ref = Some ''p1''\<rparr>, Some ?pl), ?w)"
    by (simp only: demo_gate demo_request_simps)
  have quota: "checkCharacterLimit ?e ?req ''s1'' ?w =
     (Next (fst (getOrCreateCurrentUsage ?e ''u1'' ''s1'' ?w), length ''Hello world''), ?w)"
    by (rule demo_quota_ok) simp_all
  have n: "processingFiles ?w ''u1'' = 1" by (simp add: processingFiles_def demo_defs)
  have "reply_code (fst (convert_route ?e ?req ?w)) = Some CONCURRENT_LIMIT_EXCEEDED"
    using concurrency_admission [OF gate quota] n by (simp add: demo_request_simps)
  with gate quota n show ?thesis by (simp add: demo_request_simps)
qed

subsection \<open>C9: the entitlement check\<close>

text \<open>
  C9. A check on a user whose subscription is active but whose end date lies before the
  current time fails with the code \<open>EXPIRED_SUBSCRIPTION\<close>, and the store it leaves differs
  from the one it found only in that subscription's status, now \<open>expired\<close>. A check on a
  subscription that is not active fails with \<open>INACTIVE_SUBSCRIPTION\<close> and a check on a user
  without subscription with \<open>NO_SUBSCRIPTION\<close>, both leaving the store as it was.
\<close>

theorem checkSubscription_entitlement:
  "(users w uid = Some u \<and> populate_subscription w u = Some (sid, s) \<and> status s = active \<and>
      endDate s = Some d \<and> d < now e \<longrightarrow>
      (\<exists>r. checkSubscription e uid w =
             (Respond r, w\<lparr>subscriptions := (subscriptions w)(sid \<mapsto> s\<lparr>status := expired\<rparr>)\<rparr>) \<and>
           reply_code r = Some EXPIRED_SUBSCRIPTION))
   \<and> (users w uid = Some u \<and> populate_subscription w u = Some (sid, s) \<and> status s \<noteq> active \<longrightarrow>
      (\<exists>r. checkSubscription e uid w = (Respond r, w) \<and> reply_code r = Some INACTIVE_SUBSCRIPTION))
   \<and> (users w uid = Some u \<and> populate_subscription w u = None \<longrightarrow>
      (\<exists>r. checkSubscription e uid w = (Respond r, w) \<and> reply_code r = Some NO_SUBSCRIPTION))"
proof (intro conjI impI)
  assume "users w uid = Some u \<and> populate_subscription w u = Some (sid, s) \<and> status s = active \<and>
      endDate s = Some d \<and> d < now e"
  then show "\<exists>r. checkSubscription e uid w =
             (Respond r, w\<lparr>subscriptions := (subscriptions w)(sid \<mapsto> s\<lparr>status := expired\<rparr>)\<rparr>) \<and>
           reply_code r = Some EXPIRED_SUBSCRIPTION"
    by (simp add: checkSubscription_def save_subscription_def)
next
  assume "users w uid = Some u \<and> populate_subscription w u = Some (sid, s) \<and> status s \<noteq> active"
  then show "\<exists>r. checkSubscription e uid w = (Respond r, w) \<and> reply_code r = Some INACTIVE_SUBSCRIPTION"
    by (simp add: checkSubscription_def)
next
  assume "users w uid = Some u \<and> populate_subscription w u = None"
  then show "\<exists>r. checkSubscription e uid w = (Respond r, w) \<and> reply_code r = Some NO_SUBSCRIPTION"
    by (simp add: checkSubscription_def)
qed

text \<open>
  Witness of C9: at time 1000, an active subscription that ended at 500, a pending
  subscription, and a user without subscription.
\<close>

theorem checkSubscription_entitlement_witness:
  "(\<exists>r. checkSubscription (demo_env (Inl ''down'') True) ''u1'' (demo_world active (Some 500) 10 None 0 []) =
          (Respond r, (demo_world active (Some 500) 10 None 0 [])
             \<lparr>subscriptions := (subscriptions (demo_world active (Some 500) 10 None 0 []))
                (''s1'' \<mapsto> \<lparr>status = expired, endDate = Some 500, plan_ref = Some ''p1''\<rparr>)\<rparr>) \<and>
        reply_code r = Some EXPIRED_SUBSCRIPTION)
   \<and> (\<exists>r. checkSubscription (demo_env (Inl ''down'') True) ''u1'' (demo_world pending None 10 None 0 []) =
          (Respond r, demo_world pending None 10 None 0 []) \<and>
        reply_code r = Some INACTIVE_SUBSCRIPTION)
   \<and> (\<exists>r. checkSubscription (demo_env (Inl ''down'') True) ''u1'' unsubscribed_world =
          (Respond r, unsubscribed_world) \<and>
        reply_code r = Some NO_SUBSCRIPTION)"
proof -
  let ?e = "demo_env (Inl ''down'') True"
  let ?u = "\<lparr>subscription_ref = Some ''s1''\<rparr>"
  let ?s1 = "\<lparr>status = active, endDate = Some 500, plan_ref = Some ''p1''\<rparr>"
  let ?s2 = "\<lparr>status = pending, endDate = None, plan_ref = Some ''p1''\<rparr>"
  have a: "users (demo_world active (Some 500) 10 None 0 []) ''u1'' = Some ?u \<and>
      populate_subscription (demo_world active (Some 500) 10 None 0 []) ?u = Some (''s1'', ?s1) \<and>
      status ?s1 = active \<and> endDate ?s1 = Some 500 \<and> 500 < now ?e"
    by (simp add: demo_defs populate_subscription_def)
  have b: "users (demo_world pending None 10 None 0 []) ''u1'' = Some ?u \<and>
      populate_subscription (demo_world pending None 10 None 0 []) ?u = Some (''s1'', ?s2) \<and>
      status ?s2 \<noteq> active"
    by (simp add: demo_defs populate_subscription_def)
  have c: "users unsubscribed_world ''u1'' = Some \<lparr>subscription_ref = None\<rparr> \<and>
      populate_subscription unsubscribed_world \<lparr>subscription_ref = None\<rparr> = None"
    by (simp add: demo_defs populate_subscription_def)
  from a checkSubscription_entitlement [of "demo_world active (Some 500) 10 None 0 []" "''u1''" ?u "''s1''" ?s1 500 ?e]
  have 1: "\<exists>r. checkSubscription ?e ''u1'' (demo_world active (Some 500) 10 None 0 []) =
          (Respond r, (demo_world active (Some 500) 10 None 0 [])
             \<lparr>subscriptions := (subscriptions (demo_world active (Some 500) 10 None 0 []))
                (''s1'' \<mapsto> \<lparr>status = expired, endDate = Some 500, plan_ref = Some ''p1''\<rparr>)\<rparr>) \<and>
        reply_code r = Some EXPIRED_SUBSCRIPTION"
    by simp
  from b checkSubscription_entitlement [of "demo_world pending None 10 None 0 []" "''u1''" ?u "''s1''" ?s2 _ ?e]
  have 2: "\<exists>r. checkSubscription ?e ''u1'' (demo_world pending None 10 None 0 []) =
          (Respond r, demo_world pending None 10 None 0 []) \<and> reply_code r = Some INACTIVE_SUBSCRIPTION"
    by blast
  from c checkSubscription_entitlement [of unsubscribed_world "''u1''" "\<lparr>subscription_ref = None\<rparr>" _ _ _ ?e]
  have 3: "\<exists>r. checkSubscription ?e ''u1'' unsubscribed_world =
          (Respond r, unsubscribed_world) \<and> reply_code r = Some NO_SUBSCRIPTION"
    by blast
  from 1 2 3 show ?thesis by blast
qed

subsection \<open>C10: the voice preview\<close>

text \<open>
  C10. The preview route leaves users, subscriptions, plans, usage records and voice files as
  they were. It sends the provider at most one request, whose text is the first 100
  characters of the sample text (the default sample when none was given). Its request
  carries no user, and its response is the same whatever the store holds.
\<close>

theorem preview_is_stateless:
  "users (snd (preview_route e b w)) = users w
   \<and> subscriptions (snd (preview_route e b w)) = subscriptions w
   \<and> plans (snd (preview_route e b w)) = plans w
   \<and> usages (snd (preview_route e b w)) = usages w
   \<and> voiceFiles (snd (preview_route e b w)) = voiceFiles w
   \<and> voiceFileWrites (snd (preview_route e b w)) = voiceFileWrites w
   \<and> (pollyRequests (snd (preview_route e b w)) = pollyRequests w
       \<or> (\<exists>p. pollyRequests (snd (preview_route e b w)) = pollyRequests w @ [p] \<and>
             Text p = take 100 (case preview_sampleText b of None \<Rightarrow> default_sampleText | Some t \<Rightarrow> t) \<and>
             length (Text p) \<le> 100))
   \<and> fst (preview_route e b w) = fst (preview_route e b w0)"
proof -
  let ?t = "take 100 (case preview_sampleText b of None \<Rightarrow> default_sampleText | Some t \<Rightarrow> t)"
  have synth_polly: "pollyRequests (snd (synthesizeText e t v f g w)) = pollyRequests w
      \<or> (\<exists>p. pollyRequests (snd (synthesizeText e t v f g w)) = pollyRequests w @ [p] \<and> Text p = t)"
    for t v f g
    by (simp add: synthesizeText_def Let_def split: sum.splits)
  have synth_fst: "fst (synthesizeText e t v f g w) = fst (synthesizeText e t v f g w0)" for t v f g
    by (simp add: synthesizeText_def Let_def split: sum.splits)
  have snd_eq: "snd (preview_route e b w) = w
      \<or> (\<exists>v. snd (preview_route e b w) = snd (synthesizeText e ?t v ''mp3'' ''standard'' w))"
  proof (cases "previewValidation b \<and> (\<exists>v. preview_voiceId b = Some v \<and> v \<noteq> [])")
    case False
    then have "snd (preview_route e b w) = w"
      by (auto simp: preview_route_def previewVoice_def split: option.splits)
    then show ?thesis ..
  next
    case True
    then obtain v where v: "preview_voiceId b = Some v" "v \<noteq> []" and ok: "previewValidation b"
      by blast
    have "snd (preview_route e b w) = snd (synthesizeText e ?t v ''mp3'' ''standard'' w)"
      using v ok by (simp add: preview_route_def previewVoice_def Let_def split: prod.splits sum.splits)
    then show ?thesis by blast
  qed
  have frame: "users (snd (preview_route e b w)) = users w
     \<and> subscriptions (snd (preview_route e b w)) = subscriptions w
     \<and> plans (snd (preview_route e b w)) = plans w
     \<and> usages (snd (preview_route e b w)) = usages w
     \<and> voiceFiles (snd (preview_route e b w)) = voiceFiles w
     \<and> voiceFileWrites (snd (preview_route e b w)) = voiceFileWrites w"
    using snd_eq synthesizeText_frame [of e ?t _ "''mp3''" "''standard''" w] by auto
  have polly: "pollyRequests (snd (preview_route e b w)) = pollyRequests w
       \<or> (\<exists>p. pollyRequests (snd (preview_route e b w)) = pollyRequests w @ [p] \<and>
             Text p = ?t \<and> length (Text p) \<le> 100)"
    using snd_eq
  proof (elim disjE exE)
    assume "snd (preview_route e b w) = w"
    then show ?thesis by simp
  next
    fix v assume eq: "snd (preview_route e b w) = snd (synthesizeText e ?t v ''mp3'' ''standard'' w)"
    have "length ?t \<le> 100" by simp
    with synth_polly [of ?t v "''mp3''" "''standard''"] show ?thesis
      unfolding eq by metis
  qed
  have pv: "fst (previewVoice e b w1) =
      (case preview_voiceId b of
         None \<Rightarrow> Json 400 False ''Voice ID is required'' None NoData
       | Some vid \<Rightarrow>
           if vid = [] then Json 400 False ''Voice ID is required'' None NoData
           else (case fst (synthesizeText e ?t vid ''mp3'' ''standard'' w1) of
                   Inl m \<Rightarrow> Json 500 False ''Failed to generate voice preview'' None NoData
                 | Inr r \<Rightarrow> SendAudio (contentType r) (audioBuffer r)))" for w1
    by (simp add: previewVoice_def Let_def split: option.splits prod.splits sum.splits)
  have "fst (previewVoice e b w) = fst (previewVoice e b w0)"
    unfolding pv by (simp only: synth_fst)
  then have reply: "fst (preview_route e b w) = fst (preview_route e b w0)"
    by (simp add: preview_route_def)
  from frame polly reply show ?thesis by blast
qed

end
